theory Spec2Isabelle
  imports Complex_Main "HOL-Library.AList"
begin

section \<open>Rendering numbers\<close>

text \<open>
  Template literals render numbers in decimal. \<open>show_nat\<close> is the decimal rendering of a
  non-negative integer, as \<open>`${n}`\<close> gives for a JavaScript number holding that integer.
\<close>

definition digit_char :: "nat \<Rightarrow> char" where
  "digit_char d = ''0123456789'' ! d"

function show_nat :: "nat \<Rightarrow> string" where
  "show_nat n = (if n < 10 then [digit_char n] else show_nat (n div 10) @ [digit_char (n mod 10)])"
  by pat_completeness auto
termination
  by (relation "measure id") auto

declare show_nat.simps [simp del]

section \<open>JavaScript values\<close>

text \<open>
  Values as \<open>JSON.parse\<close> produces them, plus \<open>undefined\<close>. An object is the list of
  its own properties in enumeration order, each key once.
\<close>

datatype jsval =
    JUndefined
  | JNull
  | JBool bool
  | JNum rat
  | JStr string
  | JArr "jsval list"
  | JObj "(string \<times> jsval) list"

text \<open>A thrown value: every error this code meets is an \<open>Error\<close> object with a message.\<close>

datatype exn = JsError string

fun message :: "exn \<Rightarrow> string" where
  "message (JsError m) = m"

text \<open>A settled promise: \<open>Inl\<close> is a rejection (or a throw), \<open>Inr\<close> the value.\<close>

fun bindE :: "exn + 'a \<Rightarrow> ('a \<Rightarrow> exn + 'b) \<Rightarrow> exn + 'b" where
  "bindE (Inl e) k = Inl e"
| "bindE (Inr v) k = k v"

fun truthy :: "jsval \<Rightarrow> bool" where
  "truthy JUndefined = False"
| "truthy JNull = False"
| "truthy (JBool b) = b"
| "truthy (JNum r) = (r \<noteq> 0)"
| "truthy (JStr s) = (s \<noteq> [])"
| "truthy (JArr xs) = True"
| "truthy (JObj kvs) = True"

fun nullish :: "jsval \<Rightarrow> bool" where
  "nullish JUndefined = True"
| "nullish JNull = True"
| "nullish _ = False"

text \<open>\<open>a || b\<close> and \<open>a ?? b\<close>.\<close>

definition js_or :: "jsval \<Rightarrow> jsval \<Rightarrow> jsval" where
  "js_or a b = (if truthy a then a else b)"

definition js_coalesce :: "jsval \<Rightarrow> jsval \<Rightarrow> jsval" where
  "js_coalesce a b = (if nullish a then b else a)"

text \<open>
  Property reads. \<open>own_prop\<close> is the read on a value that is not null or undefined: the
  own property of a parsed JSON object, \<open>undefined\<close> otherwise (array indices, string
  indices and inherited properties are outside this model). \<open>get_prop\<close> is \<open>v.k\<close>,
  which throws a TypeError on null and undefined (the wording of its message belongs to
  the JavaScript engine; only its being an error with a message matters here);
  \<open>opt_prop\<close> is \<open>v?.k\<close>.
\<close>

fun own_prop :: "jsval \<Rightarrow> string \<Rightarrow> jsval" where
  "own_prop (JObj kvs) k = (case map_of kvs k of Some v \<Rightarrow> v | None \<Rightarrow> JUndefined)"
| "own_prop _ k = JUndefined"

definition get_prop :: "jsval \<Rightarrow> string \<Rightarrow> exn + jsval" where
  "get_prop v k =
     (if nullish v then Inl (JsError (''Cannot read properties of null or undefined (reading '' @ k @ '')''))
      else Inr (own_prop v k))"

definition opt_prop :: "jsval \<Rightarrow> string \<Rightarrow> jsval" where
  "opt_prop v k = (if nullish v then JUndefined else own_prop v k)"

text \<open>
  \<open>Object.keys\<close>: throws on null and undefined; the own keys of an object; the indices
  of an array or a string; nothing for a boolean or a number.
\<close>

fun Object_keys :: "jsval \<Rightarrow> exn + string list" where
  "Object_keys JUndefined = Inl (JsError ''Cannot convert undefined or null to object'')"
| "Object_keys JNull = Inl (JsError ''Cannot convert undefined or null to object'')"
| "Object_keys (JBool b) = Inr []"
| "Object_keys (JNum r) = Inr []"
| "Object_keys (JStr s) = Inr (map show_nat [0..<length s])"
| "Object_keys (JArr xs) = Inr (map show_nat [0..<length xs])"
| "Object_keys (JObj kvs) = Inr (map fst kvs)"

text \<open>\<open>String.prototype.trim\<close>, for the ASCII white space characters.\<close>

definition is_space :: "char \<Rightarrow> bool" where
  "is_space ch = (ch \<in> set [CHR '' '', CHR 0x09, CHR 0x0A, CHR 0x0B, CHR 0x0C, CHR 0x0D])"

definition trim :: "string \<Rightarrow> string" where
  "trim s = rev (dropWhile is_space (rev (dropWhile is_space s)))"

section \<open>MayaraClient (mayara-client.js)\<close>

record MayaraClient =
  host :: string
  port :: nat
  secure :: bool
  timeout :: nat
  baseUrl :: string

text \<open>The constructor; \<open>timeout\<close> takes its default, as in the plugin's only call.\<close>

definition new_MayaraClient :: "string \<Rightarrow> nat \<Rightarrow> bool \<Rightarrow> MayaraClient" where
  "new_MayaraClient h p sec =
     \<lparr> host = h, port = p, secure = sec, timeout = 10000,
       baseUrl = (if sec then ''https'' else ''http'') @ ''://'' @ h @ '':'' @ show_nat p \<rparr>"

text \<open>
  What the transport is asked for, and how the exchange ends: the first of the
  request's handlers to settle the promise is the \<open>error\<close> handler, the \<open>timeout\<close>
  handler, or the response's \<open>end\<close> handler with the status code and the body read.
\<close>

record http_request =
  rq_secure :: bool
  rq_hostname :: string
  rq_port :: nat
  rq_path :: string
  rq_method :: string
  rq_timeout :: nat
  rq_body :: "jsval option"

datatype http_outcome = NetError string | TimedOut | Responded nat string

text \<open>
  The promise's outcome. \<open>P\<close> is \<open>JSON.parse\<close>: \<open>None\<close> where it throws.
\<close>

definition settle :: "(string \<Rightarrow> jsval option) \<Rightarrow> http_outcome \<Rightarrow> exn + jsval" where
  "settle P out =
     (case out of
        Responded statusCode data \<Rightarrow>
          (if 200 \<le> statusCode \<and> statusCode < 300
           then (if data \<noteq> []
                 then (case P data of Some v \<Rightarrow> Inr v | None \<Rightarrow> Inr (JStr data))
                 else Inr JNull)
           else Inl (JsError (''HTTP '' @ show_nat statusCode @ '': '' @ data)))
      | NetError msg \<Rightarrow> Inl (JsError msg)
      | TimedOut \<Rightarrow> Inl (JsError ''Request timeout''))"

text \<open>
  \<open>request\<close>. \<open>T\<close> is the transport (\<open>http\<close> or \<open>https\<close> and the network behind it);
  the body is written when it is truthy.
\<close>

definition mk_request :: "MayaraClient \<Rightarrow> string \<Rightarrow> string \<Rightarrow> jsval \<Rightarrow> http_request" where
  "mk_request c method path body =
     \<lparr> rq_secure = secure c, rq_hostname = host c, rq_port = port c,
       rq_path = path, rq_method = method, rq_timeout = timeout c,
       rq_body = (if truthy body then Some body else None) \<rparr>"

definition request ::
  "(string \<Rightarrow> jsval option) \<Rightarrow> (http_request \<Rightarrow> http_outcome) \<Rightarrow> MayaraClient \<Rightarrow>
   string \<Rightarrow> string \<Rightarrow> jsval \<Rightarrow> exn + jsval" where
  "request P T c method path body = settle P (T (mk_request c method path body))"

text \<open>A response status in the range the \<open>end\<close> handler accepts.\<close>

definition is_2xx :: "nat \<Rightarrow> bool" where
  "is_2xx statusCode = (200 \<le> statusCode \<and> statusCode < 300)"

definition client_getRadars ::
  "(string \<Rightarrow> jsval option) \<Rightarrow> (http_request \<Rightarrow> http_outcome) \<Rightarrow> MayaraClient \<Rightarrow> exn + jsval" where
  "client_getRadars P T c = request P T c ''GET'' ''/v2/api/radars'' JNull"

definition client_getCapabilities ::
  "(string \<Rightarrow> jsval option) \<Rightarrow> (http_request \<Rightarrow> http_outcome) \<Rightarrow> MayaraClient \<Rightarrow>
   string \<Rightarrow> exn + jsval" where
  "client_getCapabilities P T c rid =
     request P T c ''GET'' (''/v2/api/radars/'' @ rid @ ''/capabilities'') JNull"

definition client_getState ::
  "(string \<Rightarrow> jsval option) \<Rightarrow> (http_request \<Rightarrow> http_outcome) \<Rightarrow> MayaraClient \<Rightarrow>
   string \<Rightarrow> exn + jsval" where
  "client_getState P T c rid =
     request P T c ''GET'' (''/v2/api/radars/'' @ rid @ ''/state'') JNull"

definition client_setControl ::
  "(string \<Rightarrow> jsval option) \<Rightarrow> (http_request \<Rightarrow> http_outcome) \<Rightarrow> MayaraClient \<Rightarrow>
   string \<Rightarrow> string \<Rightarrow> jsval \<Rightarrow> exn + jsval" where
  "client_setControl P T c rid controlId v =
     request P T c ''PUT'' (''/v2/api/radars/'' @ rid @ ''/controls/'' @ controlId)
       (JObj [(''value'', v)])"

definition client_setControls ::
  "(string \<Rightarrow> jsval option) \<Rightarrow> (http_request \<Rightarrow> http_outcome) \<Rightarrow> MayaraClient \<Rightarrow>
   string \<Rightarrow> jsval \<Rightarrow> exn + jsval" where
  "client_setControls P T c rid controls =
     request P T c ''PUT'' (''/v2/api/radars/'' @ rid @ ''/controls'') controls"

definition client_getTargets ::
  "(string \<Rightarrow> jsval option) \<Rightarrow> (http_request \<Rightarrow> http_outcome) \<Rightarrow> MayaraClient \<Rightarrow>
   string \<Rightarrow> exn + jsval" where
  "client_getTargets P T c rid =
     request P T c ''GET'' (''/v2/api/radars/'' @ rid @ ''/targets'') JNull"

definition client_acquireTarget ::
  "(string \<Rightarrow> jsval option) \<Rightarrow> (http_request \<Rightarrow> http_outcome) \<Rightarrow> MayaraClient \<Rightarrow>
   string \<Rightarrow> jsval \<Rightarrow> jsval \<Rightarrow> exn + jsval" where
  "client_acquireTarget P T c rid bearing distance =
     request P T c ''POST'' (''/v2/api/radars/'' @ rid @ ''/targets'')
       (JObj [(''bearing'', bearing), (''distance'', distance)])"

text \<open>The target id is a number (an integer id), rendered into the path.\<close>

definition client_cancelTarget ::
  "(string \<Rightarrow> jsval option) \<Rightarrow> (http_request \<Rightarrow> http_outcome) \<Rightarrow> MayaraClient \<Rightarrow>
   string \<Rightarrow> nat \<Rightarrow> exn + jsval" where
  "client_cancelTarget P T c rid targetId =
     request P T c ''DELETE'' (''/v2/api/radars/'' @ rid @ ''/targets/'' @ show_nat targetId) JNull"

definition getSpokeStreamUrl :: "MayaraClient \<Rightarrow> string \<Rightarrow> string" where
  "getSpokeStreamUrl c rid =
     (let wsProtocol = (if secure c then ''wss'' else ''ws'')
      in wsProtocol @ ''://'' @ host c @ '':'' @ show_nat (port c) @ ''/v2/api/radars/'' @ rid @ ''/spokes'')"

definition getTargetStreamUrl :: "MayaraClient \<Rightarrow> string \<Rightarrow> string" where
  "getTargetStreamUrl c rid =
     (let wsProtocol = (if secure c then ''wss'' else ''ws'')
      in wsProtocol @ ''://'' @ host c @ '':'' @ show_nat (port c) @ ''/v2/api/radars/'' @ rid @ ''/targets/stream'')"

text \<open>Concrete surroundings for examples: a fragment of \<open>JSON.parse\<close> and two transports.\<close>

definition parse_sample :: "string \<Rightarrow> jsval option" where
  "parse_sample s =
     (if s = ''{}'' then Some (JObj [])
      else if s = ''null'' then Some JNull
      else if s = ''[]'' then Some (JArr [])
      else None)"

definition transport_refused :: "http_request \<Rightarrow> http_outcome" where
  "transport_refused rq = NetError ''connect ECONNREFUSED''"

definition transport_garbled :: "http_request \<Rightarrow> http_outcome" where
  "transport_garbled rq = Responded 200 ''<html>''"

text \<open>A backend that refuses one request body, automatic mode, and accepts every other.\<close>

definition transport_picky :: "http_request \<Rightarrow> http_outcome" where
  "transport_picky rq =
     (if rq_body rq = Some (JObj [(''value'', JObj [(''mode'', JStr ''auto''), (''value'', JNum 50)])])
      then Responded 400 ''no auto''
      else Responded 200 ''{}'')"

definition client0 :: MayaraClient where
  "client0 = new_MayaraClient ''h'' 1 False"

section \<open>SpokeForwarder (spoke-forwarder.js)\<close>

type_synonym bytes = "nat list"

text \<open>
  The value a \<open>message\<close> event hands to its handler: an \<open>ArrayBuffer\<close>, a Node
  \<open>Buffer\<close>, or anything else (a string for a text frame, ...).
\<close>

datatype ws_data = ArrayBufferData bytes | BufferData bytes | TextData string

text \<open>
  Calls that leave the program, in the order they are made. Socket, timeout and interval
  handles are numbered in creation order. \<open>CallStart\<close> and \<open>CallStop\<close> record the
  reconciler invoking \<open>forwarder.start()\<close> and \<open>forwarder.stop()\<close> for a radar id.
\<close>

datatype effect =
    Debug string
  | NewWebSocket nat string
  | WsCloseCall nat
  | SetTimeout nat nat
  | ClearTimeout nat
  | EmitData string bytes
  | SetPluginStatus string
  | SetPluginError string
  | SetInterval nat nat
  | ClearInterval nat
  | RadarApiRegister string
  | RadarApiUnRegister string
  | CallStart string
  | CallStop string

text \<open>
  The fields of a \<open>SpokeForwarder\<close> instance. \<open>binaryStreamManager\<close> records whether the
  reference is truthy. \<open>wsCount\<close> and \<open>timerCount\<close> number the sockets and timeouts this
  instance has created, so that handles are distinct objects.
\<close>

record forwarder =
  radarId :: string
  url :: string
  binaryStreamManager :: bool
  fwReconnectInterval :: nat
  ws :: "nat option"
  reconnectTimer :: "nat option"
  closed :: bool
  connected :: bool
  streamId :: string
  wsCount :: nat
  timerCount :: nat

definition SpokeForwarder :: "string \<Rightarrow> string \<Rightarrow> bool \<Rightarrow> nat \<Rightarrow> forwarder" where
  "SpokeForwarder rid u bsm ri =
     \<lparr> radarId = rid, url = u, binaryStreamManager = bsm, fwReconnectInterval = ri,
       ws = None, reconnectTimer = None, closed = False, connected = False,
       streamId = ''radars/'' @ rid, wsCount = 0, timerCount = 0 \<rparr>"

definition scheduleReconnect :: "forwarder \<Rightarrow> forwarder \<times> effect list" where
  "scheduleReconnect f =
     (if closed f \<or> reconnectTimer f \<noteq> None then (f, [])
      else (f\<lparr>reconnectTimer := Some (timerCount f), timerCount := Suc (timerCount f)\<rparr>,
            [Debug (''Scheduling reconnect for '' @ radarId f @ '' in '' @
                    show_nat (fwReconnectInterval f) @ ''ms''),
             SetTimeout (timerCount f) (fwReconnectInterval f)]))"

text \<open>
  \<open>connect\<close>. The parameter \<open>W\<close> says what \<open>new WebSocket(url)\<close> does for a URL:
  \<open>None\<close> when it returns a socket, \<open>Some msg\<close> when it throws an error with that
  message (the \<open>catch\<close> branch; \<open>this.ws\<close> then keeps its old value).
\<close>

definition connect :: "(string \<Rightarrow> string option) \<Rightarrow> forwarder \<Rightarrow> forwarder \<times> effect list" where
  "connect W f =
     (if closed f then (f, [])
      else (case W (url f) of
              None \<Rightarrow>
                (f\<lparr>ws := Some (wsCount f), wsCount := Suc (wsCount f)\<rparr>,
                 [Debug (''Connecting to spoke stream: '' @ url f),
                  NewWebSocket (wsCount f) (url f)])
            | Some msg \<Rightarrow>
                (let (f', es) = (if \<not> closed f then scheduleReconnect f else (f, []))
                 in (f', [Debug (''Connecting to spoke stream: '' @ url f),
                          Debug (''Failed to connect to spoke stream for '' @ radarId f @ '': '' @ msg)]
                         @ es))))"

definition start :: "(string \<Rightarrow> string option) \<Rightarrow> forwarder \<Rightarrow> forwarder \<times> effect list" where
  "start W f = (if closed f then (f, []) else connect W f)"

text \<open>The four socket event handlers that \<open>connect\<close> registers; all close over \<open>this\<close>.\<close>

definition on_open :: "forwarder \<Rightarrow> forwarder \<times> effect list" where
  "on_open f =
     (f\<lparr>connected := True\<rparr>, [Debug (''Connected to spoke stream for '' @ radarId f)])"

definition on_message :: "ws_data \<Rightarrow> forwarder \<Rightarrow> forwarder \<times> effect list" where
  "on_message d f =
     (case d of
        ArrayBufferData b \<Rightarrow>
          (if binaryStreamManager f then (f, [EmitData (streamId f) b]) else (f, []))
      | BufferData b \<Rightarrow>
          (if binaryStreamManager f then (f, [EmitData (streamId f) b]) else (f, []))
      | TextData s \<Rightarrow> (f, []))"

definition on_error :: "string \<Rightarrow> forwarder \<Rightarrow> forwarder \<times> effect list" where
  "on_error msg f =
     (f, [Debug (''Spoke stream error for '' @ radarId f @ '': '' @ msg)])"

definition on_close :: "nat \<Rightarrow> string \<Rightarrow> forwarder \<Rightarrow> forwarder \<times> effect list" where
  "on_close code reason f =
     (let f1 = f\<lparr>connected := False\<rparr>;
          d = Debug (''Spoke stream closed for '' @ radarId f @ '': '' @ show_nat code @ '' '' @ reason)
      in if \<not> closed f1
         then (let (f2, es) = scheduleReconnect f1 in (f2, d # es))
         else (f1, [d]))"

text \<open>The callback given to \<open>setTimeout\<close> in \<open>scheduleReconnect\<close>.\<close>

definition on_timer :: "(string \<Rightarrow> string option) \<Rightarrow> forwarder \<Rightarrow> forwarder \<times> effect list" where
  "on_timer W f =
     (let f1 = f\<lparr>reconnectTimer := None\<rparr>
      in if \<not> closed f1 then connect W f1 else (f1, []))"

text \<open>
  \<open>stop\<close>. An error thrown by \<open>ws.close()\<close> is caught and ignored, so the call is
  recorded and the state is the same either way.
\<close>

definition stop :: "forwarder \<Rightarrow> forwarder \<times> effect list" where
  "stop f =
     (let f1 = f\<lparr>closed := True\<rparr>;
          (f2, e2) = (case reconnectTimer f1 of
                        Some t \<Rightarrow> (f1\<lparr>reconnectTimer := None\<rparr>, [ClearTimeout t])
                      | None \<Rightarrow> (f1, []));
          (f3, e3) = (case ws f2 of
                        Some s \<Rightarrow> (f2\<lparr>ws := None\<rparr>, [WsCloseCall s])
                      | None \<Rightarrow> (f2, []))
      in (f3\<lparr>connected := False\<rparr>,
          e2 @ e3 @ [Debug (''Stopped spoke forwarder for '' @ radarId f)]))"

text \<open>
  What can happen to a forwarder after construction: a method call, an event of a socket
  it created, or its timeout callback running.
\<close>

datatype fw_event =
    EvStart
  | EvStop
  | EvOpen
  | EvMessage ws_data
  | EvError string
  | EvClose nat string
  | EvTimer

fun fw_step :: "(string \<Rightarrow> string option) \<Rightarrow> fw_event \<Rightarrow> forwarder \<Rightarrow> forwarder \<times> effect list" where
  "fw_step W EvStart f = start W f"
| "fw_step W EvStop f = stop f"
| "fw_step W EvOpen f = on_open f"
| "fw_step W (EvMessage d) f = on_message d f"
| "fw_step W (EvError m) f = on_error m f"
| "fw_step W (EvClose c r) f = on_close c r f"
| "fw_step W EvTimer f = on_timer W f"

fun fw_run :: "(string \<Rightarrow> string option) \<Rightarrow> fw_event list \<Rightarrow> forwarder \<Rightarrow> forwarder \<times> effect list" where
  "fw_run W [] f = (f, [])"
| "fw_run W (e # es) f =
     (let (f1, out1) = fw_step W e f; (f2, out2) = fw_run W es f1 in (f2, out1 @ out2))"

text \<open>
  Effects that open a connection or arm a reconnect, lines of the debug log, and effects
  that forward a frame.
\<close>

fun is_connect_effect :: "effect \<Rightarrow> bool" where
  "is_connect_effect (NewWebSocket _ _) = True"
| "is_connect_effect (SetTimeout _ _) = True"
| "is_connect_effect _ = False"

fun is_debug :: "effect \<Rightarrow> bool" where
  "is_debug (Debug _) = True"
| "is_debug _ = False"

fun is_emit :: "effect \<Rightarrow> bool" where
  "is_emit (EmitData _ _) = True"
| "is_emit _ = False"

fun is_binary :: "ws_data \<Rightarrow> bool" where
  "is_binary (ArrayBufferData _) = True"
| "is_binary (BufferData _) = True"
| "is_binary (TextData _) = False"

fun payload :: "ws_data \<Rightarrow> bytes" where
  "payload (ArrayBufferData b) = b"
| "payload (BufferData b) = b"
| "payload (TextData s) = []"


text \<open>The payloads of the binary messages among a list of events, in order.\<close>

fun frames_of :: "fw_event list \<Rightarrow> bytes list" where
  "frames_of [] = []"
| "frames_of (EvMessage d # es) = (if is_binary d then payload d # frames_of es else frames_of es)"
| "frames_of (_ # es) = frames_of es"

text \<open>A \<open>new WebSocket\<close> that never throws, for concrete runs.\<close>

definition ws_ok :: "string \<Rightarrow> string option" where
  "ws_ok u = None"

definition relay0 :: forwarder where
  "relay0 = SpokeForwarder ''r1'' ''ws://h:1/v2/api/radars/r1/spokes'' True 5000"

section \<open>RadarProvider (radar-provider.js)\<close>

text \<open>
  Every method is an async function whose whole body is one \<open>try\<close> with a \<open>catch\<close> that
  logs and returns a value. A method's result is the settled promise it returns, with
  the debug lines it logged. \<open>try_catch\<close> runs a body that may throw or await a
  rejected promise, and the handler on the error. A handler only reads the error's
  message, logs and returns, so it does not throw itself.
\<close>

definition try_catch ::
  "exn + jsval \<Rightarrow> (exn \<Rightarrow> jsval \<times> effect list) \<Rightarrow> (exn + jsval) \<times> effect list" where
  "try_catch body handler =
     (case body of
        Inr v \<Rightarrow> (Inr v, [])
      | Inl err \<Rightarrow> (case handler err of (v, es) \<Rightarrow> (Inr v, es)))"

definition provider_getRadars ::
  "(string \<Rightarrow> jsval option) \<Rightarrow> (http_request \<Rightarrow> http_outcome) \<Rightarrow> MayaraClient \<Rightarrow>
   (exn + jsval) \<times> effect list" where
  "provider_getRadars P T c =
     try_catch
       (bindE (client_getRadars P T c) (\<lambda>radars.
        bindE (Object_keys radars) (\<lambda>ks. Inr (JArr (map JStr ks)))))
       (\<lambda>err. (JArr [], [Debug (''getRadars error: '' @ message err)]))"

text \<open>
  The RadarInfo object built from state and capabilities. \<open>S\<close> is JavaScript's string
  conversion, which the template literal applies to the make and the model.
\<close>

definition radarInfo :: "(jsval \<Rightarrow> string) \<Rightarrow> string \<Rightarrow> jsval \<Rightarrow> jsval \<Rightarrow> jsval" where
  "radarInfo S rid state capabilities =
     JObj [
       (''id'', JStr rid),
       (''name'',
          if truthy (opt_prop capabilities ''model'')
          then JStr (trim (S (js_or (own_prop capabilities ''make'') (JStr [])) @ '' '' @
                           S (own_prop capabilities ''model'')))
          else JStr rid),
       (''brand'', js_or (opt_prop capabilities ''make'') (JStr ''Unknown'')),
       (''status'', js_or (own_prop state ''status'') (JStr ''standby'')),
       (''spokesPerRevolution'',
          js_or (opt_prop (opt_prop capabilities ''characteristics'') ''spokesPerRevolution'')
                (JNum 2048)),
       (''maxSpokeLen'',
          js_or (opt_prop (opt_prop capabilities ''characteristics'') ''maxSpokeLength'')
                (JNum 512)),
       (''range'', js_or (opt_prop (own_prop state ''controls'') ''range'') (JNum 1852)),
       (''controls'', JObj [
          (''gain'', js_or (opt_prop (own_prop state ''controls'') ''gain'')
                           (JObj [(''auto'', JBool True), (''value'', JNum 50)])),
          (''sea'', js_or (opt_prop (own_prop state ''controls'') ''sea'')
                          (JObj [(''auto'', JBool True), (''value'', JNum 50)])),
          (''rain'', js_or (opt_prop (own_prop state ''controls'') ''rain'')
                           (JObj [(''value'', JNum 0)]))]),
       (''streamUrl'', JUndefined)]"

definition provider_getRadarInfo ::
  "(string \<Rightarrow> jsval option) \<Rightarrow> (http_request \<Rightarrow> http_outcome) \<Rightarrow> (jsval \<Rightarrow> string) \<Rightarrow>
   MayaraClient \<Rightarrow> string \<Rightarrow> (exn + jsval) \<times> effect list" where
  "provider_getRadarInfo P T S c rid =
     try_catch
       (bindE (client_getState P T c rid) (\<lambda>state.
          if \<not> truthy state then Inr JNull
          else bindE (client_getCapabilities P T c rid) (\<lambda>capabilities.
                 Inr (radarInfo S rid state capabilities))))
       (\<lambda>err. (JNull, [Debug (''getRadarInfo error for '' @ rid @ '': '' @ message err)]))"

definition provider_getCapabilities ::
  "(string \<Rightarrow> jsval option) \<Rightarrow> (http_request \<Rightarrow> http_outcome) \<Rightarrow> MayaraClient \<Rightarrow>
   string \<Rightarrow> (exn + jsval) \<times> effect list" where
  "provider_getCapabilities P T c rid =
     try_catch (client_getCapabilities P T c rid)
       (\<lambda>err. (JNull, [Debug (''getCapabilities error for '' @ rid @ '': '' @ message err)]))"

definition provider_getState ::
  "(string \<Rightarrow> jsval option) \<Rightarrow> (http_request \<Rightarrow> http_outcome) \<Rightarrow> MayaraClient \<Rightarrow>
   string \<Rightarrow> (exn + jsval) \<times> effect list" where
  "provider_getState P T c rid =
     try_catch (client_getState P T c rid)
       (\<lambda>err. (JNull, [Debug (''getState error for '' @ rid @ '': '' @ message err)]))"

definition provider_getControl ::
  "(string \<Rightarrow> jsval option) \<Rightarrow> (http_request \<Rightarrow> http_outcome) \<Rightarrow> MayaraClient \<Rightarrow>
   string \<Rightarrow> string \<Rightarrow> (exn + jsval) \<times> effect list" where
  "provider_getControl P T c rid controlId =
     try_catch
       (bindE (client_getState P T c rid) (\<lambda>state.
          Inr (js_coalesce (opt_prop (opt_prop state ''controls'') controlId) JNull)))
       (\<lambda>err. (JNull, [Debug (''getControl error for '' @ rid @ ''/'' @ controlId @ '': '' @ message err)]))"

definition provider_setPower ::
  "(string \<Rightarrow> jsval option) \<Rightarrow> (http_request \<Rightarrow> http_outcome) \<Rightarrow> MayaraClient \<Rightarrow>
   string \<Rightarrow> jsval \<Rightarrow> (exn + jsval) \<times> effect list" where
  "provider_setPower P T c rid state =
     try_catch
       (bindE (client_setControl P T c rid ''power'' state) (\<lambda>_. Inr (JBool True)))
       (\<lambda>err. (JBool False, [Debug (''setPower error for '' @ rid @ '': '' @ message err)]))"

definition provider_setRange ::
  "(string \<Rightarrow> jsval option) \<Rightarrow> (http_request \<Rightarrow> http_outcome) \<Rightarrow> MayaraClient \<Rightarrow>
   string \<Rightarrow> jsval \<Rightarrow> (exn + jsval) \<times> effect list" where
  "provider_setRange P T c rid rng =
     try_catch
       (bindE (client_setControl P T c rid ''range'' rng) (\<lambda>_. Inr (JBool True)))
       (\<lambda>err. (JBool False, [Debug (''setRange error for '' @ rid @ '': '' @ message err)]))"

text \<open>
  The \<open>{ mode, value }\<close> object that setGain, setSea and setRain build from their
  argument; reading \<open>.auto\<close> of null or undefined throws inside the \<open>try\<close>.
\<close>

definition mode_value :: "jsval \<Rightarrow> rat \<Rightarrow> exn + jsval" where
  "mode_value g dflt =
     bindE (get_prop g ''auto'') (\<lambda>a.
     bindE (get_prop g ''value'') (\<lambda>v.
       Inr (JObj [(''mode'', JStr (if truthy a then ''auto'' else ''manual'')),
                  (''value'', js_coalesce v (JNum dflt))])))"

definition provider_setGain ::
  "(string \<Rightarrow> jsval option) \<Rightarrow> (http_request \<Rightarrow> http_outcome) \<Rightarrow> MayaraClient \<Rightarrow>
   string \<Rightarrow> jsval \<Rightarrow> (exn + jsval) \<times> effect list" where
  "provider_setGain P T c rid gain =
     try_catch
       (bindE (mode_value gain 50) (\<lambda>v.
        bindE (client_setControl P T c rid ''gain'' v) (\<lambda>_. Inr (JBool True))))
       (\<lambda>err. (JBool False, [Debug (''setGain error for '' @ rid @ '': '' @ message err)]))"

definition provider_setSea ::
  "(string \<Rightarrow> jsval option) \<Rightarrow> (http_request \<Rightarrow> http_outcome) \<Rightarrow> MayaraClient \<Rightarrow>
   string \<Rightarrow> jsval \<Rightarrow> (exn + jsval) \<times> effect list" where
  "provider_setSea P T c rid sea =
     try_catch
       (bindE (mode_value sea 50) (\<lambda>v.
        bindE (client_setControl P T c rid ''sea'' v) (\<lambda>_. Inr (JBool True))))
       (\<lambda>err. (JBool False, [Debug (''setSea error for '' @ rid @ '': '' @ message err)]))"

definition provider_setRain ::
  "(string \<Rightarrow> jsval option) \<Rightarrow> (http_request \<Rightarrow> http_outcome) \<Rightarrow> MayaraClient \<Rightarrow>
   string \<Rightarrow> jsval \<Rightarrow> (exn + jsval) \<times> effect list" where
  "provider_setRain P T c rid rain =
     try_catch
       (bindE (mode_value rain 0) (\<lambda>v.
        bindE (client_setControl P T c rid ''rain'' v) (\<lambda>_. Inr (JBool True))))
       (\<lambda>err. (JBool False, [Debug (''setRain error for '' @ rid @ '': '' @ message err)]))"

definition failure_result :: "exn \<Rightarrow> jsval" where
  "failure_result err = JObj [(''success'', JBool False), (''error'', JStr (message err))]"

definition provider_setControl ::
  "(string \<Rightarrow> jsval option) \<Rightarrow> (http_request \<Rightarrow> http_outcome) \<Rightarrow> MayaraClient \<Rightarrow>
   string \<Rightarrow> string \<Rightarrow> jsval \<Rightarrow> (exn + jsval) \<times> effect list" where
  "provider_setControl P T c rid controlId v =
     try_catch
       (bindE (client_setControl P T c rid controlId v) (\<lambda>_. Inr (JObj [(''success'', JBool True)])))
       (\<lambda>err. (failure_result err,
               [Debug (''setControl error for '' @ rid @ ''/'' @ controlId @ '': '' @ message err)]))"

definition provider_setControls ::
  "(string \<Rightarrow> jsval option) \<Rightarrow> (http_request \<Rightarrow> http_outcome) \<Rightarrow> MayaraClient \<Rightarrow>
   string \<Rightarrow> jsval \<Rightarrow> (exn + jsval) \<times> effect list" where
  "provider_setControls P T c rid controls =
     try_catch
       (bindE (client_setControls P T c rid controls) (\<lambda>_. Inr (JBool True)))
       (\<lambda>err. (JBool False, [Debug (''setControls error for '' @ rid @ '': '' @ message err)]))"

definition provider_getTargets ::
  "(string \<Rightarrow> jsval option) \<Rightarrow> (http_request \<Rightarrow> http_outcome) \<Rightarrow> MayaraClient \<Rightarrow>
   string \<Rightarrow> (exn + jsval) \<times> effect list" where
  "provider_getTargets P T c rid =
     try_catch (client_getTargets P T c rid)
       (\<lambda>err. (JNull, [Debug (''getTargets error for '' @ rid @ '': '' @ message err)]))"

definition provider_acquireTarget ::
  "(string \<Rightarrow> jsval option) \<Rightarrow> (http_request \<Rightarrow> http_outcome) \<Rightarrow> MayaraClient \<Rightarrow>
   string \<Rightarrow> jsval \<Rightarrow> jsval \<Rightarrow> (exn + jsval) \<times> effect list" where
  "provider_acquireTarget P T c rid bearing distance =
     try_catch
       (bindE (client_acquireTarget P T c rid bearing distance) (\<lambda>result.
        bindE (get_prop result ''targetId'') (\<lambda>t.
          Inr (JObj [(''success'', JBool True), (''targetId'', t)]))))
       (\<lambda>err. (failure_result err,
               [Debug (''acquireTarget error for '' @ rid @ '': '' @ message err)]))"

definition provider_cancelTarget ::
  "(string \<Rightarrow> jsval option) \<Rightarrow> (http_request \<Rightarrow> http_outcome) \<Rightarrow> MayaraClient \<Rightarrow>
   string \<Rightarrow> nat \<Rightarrow> (exn + jsval) \<times> effect list" where
  "provider_cancelTarget P T c rid targetId =
     try_catch
       (bindE (client_cancelTarget P T c rid targetId) (\<lambda>_. Inr (JBool True)))
       (\<lambda>err. (JBool False,
               [Debug (''cancelTarget error for '' @ rid @ ''/'' @ show_nat targetId @ '': '' @ message err)]))"

text \<open>A string conversion for examples: right on strings, which is all they use.\<close>

definition string_sample :: "jsval \<Rightarrow> string" where
  "string_sample v = (case v of JStr s \<Rightarrow> s | _ \<Rightarrow> [])"

section \<open>The plugin (index.js): discovery and reconciliation\<close>

text \<open>
  The settings object: a field is \<open>None\<close> when it is undefined. \<open>or_default\<close> is
  \<open>n || d\<close> on a number: the default replaces undefined and 0.
\<close>

record settings =
  cfg_host :: "string option"
  cfg_port :: "nat option"
  cfg_secure :: "bool option"
  cfg_discoveryPollInterval :: "nat option"
  cfg_reconnectInterval :: "nat option"

definition or_default :: "nat option \<Rightarrow> nat \<Rightarrow> nat" where
  "or_default x d = (case x of Some n \<Rightarrow> (if n \<noteq> 0 then n else d) | None \<Rightarrow> d)"

definition host_or_default :: "string option \<Rightarrow> string" where
  "host_or_default x = (case x of Some h \<Rightarrow> (if h \<noteq> [] then h else ''localhost'') | None \<Rightarrow> ''localhost'')"

definition secure_or_default :: "bool option \<Rightarrow> bool" where
  "secure_or_default x = (case x of Some b \<Rightarrow> b | None \<Rightarrow> False)"

definition pollMs :: "settings \<Rightarrow> nat" where
  "pollMs st = or_default (cfg_discoveryPollInterval st) 10 * 1000"

definition reconnectMs :: "settings \<Rightarrow> nat" where
  "reconnectMs st = or_default (cfg_reconnectInterval st) 5 * 1000"

text \<open>
  What the plugin uses of the host application: whether \<open>app.radarApi\<close> is there,
  whether \<open>register\<close> and \<open>unRegister\<close> throw (and with what message), and whether
  \<open>app.binaryStreamManager\<close> is there.
\<close>

record app =
  radarApi :: bool
  register_error :: "string option"
  unRegister_error :: "string option"
  app_binaryStreamManager :: bool

text \<open>
  The variables the plugin's closures share; they live as long as the plugin is loaded,
  across \<open>stop\<close> and a later \<open>start\<close>. \<open>client\<close> is null before the first \<open>start\<close>
  and after every \<open>stop\<close>. \<open>knownRadars\<close> is a Set and \<open>spokeForwarders\<close> a Map: both
  iterate in insertion order, so they are a list without repetitions and an association
  list. \<open>intervalCount\<close> numbers the interval handles.
\<close>

record plugin =
  client :: "MayaraClient option"
  spokeForwarders :: "(string \<times> forwarder) list"
  discoveryInterval :: "nat option"
  reconnectInterval :: "nat option"
  isConnected :: bool
  knownRadars :: "string list"
  intervalCount :: nat

definition plugin_init :: plugin where
  "plugin_init =
     \<lparr> client = None, spokeForwarders = [], discoveryInterval = None, reconnectInterval = None,
       isConnected = False, knownRadars = [], intervalCount = 0 \<rparr>"

text \<open>\<open>Set.prototype.add\<close> and \<open>new Set(array)\<close>.\<close>

definition set_add :: "string list \<Rightarrow> string \<Rightarrow> string list" where
  "set_add xs x = (if x \<in> set xs then xs else xs @ [x])"

definition new_Set :: "string list \<Rightarrow> string list" where
  "new_Set xs = foldl set_add [] xs"

text \<open>
  \<open>plugin.start\<close>. The last component says whether \<open>connectAndDiscover\<close> was called,
  which leaves its first \<open>getRadars\<close> request in flight.
\<close>

definition plugin_start :: "app \<Rightarrow> settings \<Rightarrow> plugin \<Rightarrow> plugin \<times> effect list \<times> bool" where
  "plugin_start a st s =
     (let s1 = s\<lparr>client := Some (new_MayaraClient (host_or_default (cfg_host st))
                                   (or_default (cfg_port st) 6502)
                                   (secure_or_default (cfg_secure st)))\<rparr>;
          d = Debug ''Starting mayara-server-signalk-plugin''
      in if \<not> radarApi a
         then (s1, [d, SetPluginError ''SignalK Radar API not available (requires SignalK >= 2.0.0)''],
               False)
         else (case register_error a of
                 Some msg \<Rightarrow>
                   (s1, [d, RadarApiRegister ''mayara-server-signalk-plugin'',
                         SetPluginError (''Failed to register radar provider: '' @ msg)], False)
               | None \<Rightarrow>
                   (s1, [d, RadarApiRegister ''mayara-server-signalk-plugin'',
                         Debug ''Registered as radar provider''], True)))"

text \<open>
  \<open>plugin.stop\<close>: unregister, clear both intervals, stop every forwarder in the map's
  order, empty the map and the set, drop the client. It cancels no request in flight.
\<close>

fun stop_all :: "(string \<times> forwarder) list \<Rightarrow> effect list" where
  "stop_all [] = []"
| "stop_all ((rid, f) # fs) = CallStop rid # snd (stop f) @ stop_all fs"

definition plugin_stop :: "app \<Rightarrow> plugin \<Rightarrow> plugin \<times> effect list" where
  "plugin_stop a s =
     (let e0 = [Debug ''Stopping mayara-server-signalk-plugin''];
          e1 = (if radarApi a
                then RadarApiUnRegister ''mayara-server-signalk-plugin'' #
                     (case unRegister_error a of
                        Some msg \<Rightarrow> [Debug (''Error unregistering: '' @ msg)]
                      | None \<Rightarrow> [])
                else []);
          (s2, e2) = (case discoveryInterval s of
                        Some h \<Rightarrow> (s\<lparr>discoveryInterval := None\<rparr>, [ClearInterval h])
                      | None \<Rightarrow> (s, []));
          (s3, e3) = (case reconnectInterval s2 of
                        Some h \<Rightarrow> (s2\<lparr>reconnectInterval := None\<rparr>, [ClearInterval h])
                      | None \<Rightarrow> (s2, []));
          e4 = stop_all (spokeForwarders s3);
          s4 = s3\<lparr>spokeForwarders := [], knownRadars := []\<rparr>;
          s5 = (case client s4 of Some c \<Rightarrow> s4\<lparr>client := None\<rparr> | None \<Rightarrow> s4)
      in (s5\<lparr>isConnected := False\<rparr>,
          e0 @ e1 @ e2 @ e3 @ e4 @ [SetPluginStatus ''Stopped'']))"

text \<open>
  \<open>updateRadars\<close>, first loop: for each current id that is not known, add it to
  \<open>knownRadars\<close> and, when the stream manager is there, construct a forwarder, put it in
  the map and start it. The map holds the forwarder object itself, so it holds the
  forwarder as \<open>start\<close> leaves it. The forwarder's URL is read from the variable
  \<open>client\<close>: when that is null, \<open>client.getSpokeStreamUrl\<close> throws a TypeError, after
  the id was added and before anything is put in the map, and the loop ends there. The
  third component of the result is the error thrown, if any.
\<close>

fun add_new ::
  "app \<Rightarrow> (string \<Rightarrow> string option) \<Rightarrow> settings \<Rightarrow> string list \<Rightarrow> plugin \<Rightarrow>
   plugin \<times> effect list \<times> exn option" where
  "add_new a W st [] s = (s, [], None)"
| "add_new a W st (rid # ids) s =
     (if rid \<notin> set (knownRadars s)
      then (let d = Debug (''New radar discovered: '' @ rid);
                s1 = s\<lparr>knownRadars := set_add (knownRadars s) rid\<rparr>
            in if app_binaryStreamManager a
               then (case client s1 of
                       None \<Rightarrow>
                         (s1, [d],
                          Some (JsError ''Cannot read properties of null (reading getSpokeStreamUrl)''))
                     | Some c \<Rightarrow>
                         (let (f, es) = start W (SpokeForwarder rid (getSpokeStreamUrl c rid)
                                                  (app_binaryStreamManager a) (reconnectMs st));
                              s2 = s1\<lparr>spokeForwarders := AList.update rid f (spokeForwarders s1)\<rparr>;
                              (s3, es', thrown) = add_new a W st ids s2
                          in (s3, d # CallStart rid # es @ es', thrown)))
               else (let (s3, es', thrown) = add_new a W st ids s1
                     in (s3, d # Debug ''binaryStreamManager not available - spoke streaming disabled''
                              # es', thrown)))
      else add_new a W st ids s)"

text \<open>
  Second loop: for each known id that is not current, delete it from \<open>knownRadars\<close> and,
  when the map has a forwarder for it, stop that forwarder and delete it from the map.
  The loop iterates over \<open>knownRadars\<close> while deleting the element just visited; a Set
  iterator still visits every other element once, so the ids visited are those the set
  held when the loop began. Nothing in this loop throws.
\<close>

fun remove_gone :: "string list \<Rightarrow> string list \<Rightarrow> plugin \<Rightarrow> plugin \<times> effect list" where
  "remove_gone currentIds [] s = (s, [])"
| "remove_gone currentIds (rid # ids) s =
     (if rid \<notin> set currentIds
      then (let d = Debug (''Radar disconnected: '' @ rid);
                s1 = s\<lparr>knownRadars := removeAll rid (knownRadars s)\<rparr>
            in case map_of (spokeForwarders s1) rid of
                 Some f \<Rightarrow>
                   (let (f', es) = stop f;
                        s2 = s1\<lparr>spokeForwarders := AList.delete rid (spokeForwarders s1)\<rparr>;
                        (s3, es') = remove_gone currentIds ids s2
                    in (s3, d # CallStop rid # es @ es'))
               | None \<Rightarrow>
                   (let (s3, es') = remove_gone currentIds ids s1 in (s3, d # es')))
      else remove_gone currentIds ids s)"

text \<open>
  \<open>updateRadars\<close>: the state it leaves, the effects, and the error it throws, if any.
  When the first loop throws, the second loop does not run.
\<close>

definition updateRadars ::
  "app \<Rightarrow> (string \<Rightarrow> string option) \<Rightarrow> settings \<Rightarrow> string list \<Rightarrow> plugin \<Rightarrow>
   plugin \<times> effect list \<times> exn option" where
  "updateRadars a W st radarIds s =
     (let currentIds = new_Set radarIds;
          (s1, e1, thrown) = add_new a W st currentIds s
      in case thrown of
           Some err \<Rightarrow> (s1, e1, Some err)
         | None \<Rightarrow>
             (let (s2, e2) = remove_gone currentIds (knownRadars s1) s1
              in (s2, e1 @ e2, None)))"

text \<open>The assignments \<open>x = setInterval(...)\<close> and the call \<open>clearInterval(x)\<close>.\<close>

definition set_discoveryInterval :: "settings \<Rightarrow> plugin \<Rightarrow> plugin \<times> effect list" where
  "set_discoveryInterval st s =
     (s\<lparr>discoveryInterval := Some (intervalCount s), intervalCount := Suc (intervalCount s)\<rparr>,
      [SetInterval (intervalCount s) (pollMs st)])"

definition set_reconnectInterval :: "settings \<Rightarrow> plugin \<Rightarrow> plugin \<times> effect list" where
  "set_reconnectInterval st s =
     (s\<lparr>reconnectInterval := Some (intervalCount s), intervalCount := Suc (intervalCount s)\<rparr>,
      [SetInterval (intervalCount s) (reconnectMs st)])"

definition clearInterval :: "nat option \<Rightarrow> effect list" where
  "clearInterval h = (case h of Some n \<Rightarrow> [ClearInterval n] | None \<Rightarrow> [])"

text \<open>
  The body of \<open>connectAndDiscover\<close> from the point where \<open>await client.getRadars()\<close>
  yields \<open>r\<close>: the settled request, or the TypeError of the call itself when \<open>client\<close>
  was null. \<open>Object.keys\<close> runs after \<open>isConnected = true\<close> and may throw into the
  same \<open>catch\<close>, and so may \<open>updateRadars\<close>.
\<close>

definition connectAndDiscover_catch :: "settings \<Rightarrow> exn \<Rightarrow> plugin \<Rightarrow> plugin \<times> effect list" where
  "connectAndDiscover_catch st err s =
     (let s1 = s\<lparr>isConnected := False\<rparr>;
          (s2, e2) = set_reconnectInterval st s1
      in (s2, SetPluginError (''Cannot connect to mayara-server: '' @ message err) # e2))"

definition connectAndDiscover ::
  "app \<Rightarrow> (string \<Rightarrow> string option) \<Rightarrow> settings \<Rightarrow> exn + jsval \<Rightarrow> plugin \<Rightarrow>
   plugin \<times> effect list" where
  "connectAndDiscover a W st r s =
     (case r of
        Inl err \<Rightarrow> connectAndDiscover_catch st err s
      | Inr radars \<Rightarrow>
          (let s1 = s\<lparr>isConnected := True\<rparr>
           in case Object_keys radars of
                Inl err \<Rightarrow> connectAndDiscover_catch st err s1
              | Inr radarIds \<Rightarrow>
                  (let e1 = SetPluginStatus (''Connected - '' @ show_nat (length radarIds) @ '' radar(s) found'');
                       (s2, e2, thrown) = updateRadars a W st radarIds s1
                   in case thrown of
                        Some err \<Rightarrow>
                          (let (s3, e3) = connectAndDiscover_catch st err s2
                           in (s3, e1 # e2 @ e3))
                      | None \<Rightarrow>
                          (let (s3, e3) = set_discoveryInterval st s2
                           in (s3, e1 # e2 @ e3)))))"

text \<open>
  The callback of the reconnect interval, from the point where
  \<open>await client.getRadars()\<close> yields \<open>r\<close>. The source has two copies, one in
  \<open>connectAndDiscover\<close> (\<open>logs = True\<close>: its \<open>catch\<close> logs the failure) and one in
  \<open>pollForRadarChanges\<close> (\<open>logs = False\<close>: its \<open>catch\<close> is empty).
\<close>

definition reconnect_catch :: "bool \<Rightarrow> exn \<Rightarrow> effect list" where
  "reconnect_catch logs e = (if logs then [Debug (''Reconnect failed: '' @ message e)] else [])"

definition reconnect_attempt ::
  "bool \<Rightarrow> app \<Rightarrow> (string \<Rightarrow> string option) \<Rightarrow> settings \<Rightarrow> exn + jsval \<Rightarrow>
   plugin \<Rightarrow> plugin \<times> effect list" where
  "reconnect_attempt logs a W st r s =
     (case r of
        Inl e \<Rightarrow> (s, reconnect_catch logs e)
      | Inr radars \<Rightarrow>
          (let s1 = s\<lparr>isConnected := True\<rparr>
           in case Object_keys radars of
                Inl e \<Rightarrow> (s1, reconnect_catch logs e)
              | Inr radarIds \<Rightarrow>
                  (let e1 = SetPluginStatus (''Connected - '' @ show_nat (length radarIds) @ '' radar(s) found'');
                       e2 = clearInterval (reconnectInterval s1);
                       s2 = s1\<lparr>reconnectInterval := None\<rparr>;
                       (s3, e3, thrown) = updateRadars a W st radarIds s2
                   in case thrown of
                        Some e \<Rightarrow> (s3, e1 # e2 @ e3 @ reconnect_catch logs e)
                      | None \<Rightarrow>
                          (let (s4, e4) = set_discoveryInterval st s3
                           in (s4, e1 # e2 @ e3 @ e4)))))"

text \<open>
  \<open>pollForRadarChanges\<close>, the callback of the discovery interval, from the point where
  \<open>await client.getRadars()\<close> yields \<open>r\<close>.
\<close>

definition pollForRadarChanges_catch :: "settings \<Rightarrow> exn \<Rightarrow> plugin \<Rightarrow> plugin \<times> effect list" where
  "pollForRadarChanges_catch st err s =
     (let s1 = s\<lparr>isConnected := False\<rparr>;
          e1 = SetPluginError (''Lost connection: '' @ message err);
          (s2, e2) = (case discoveryInterval s1 of
                        Some h \<Rightarrow> (s1\<lparr>discoveryInterval := None\<rparr>, [ClearInterval h])
                      | None \<Rightarrow> (s1, []));
          (s3, e3) = set_reconnectInterval st s2
      in (s3, e1 # e2 @ e3))"

definition pollForRadarChanges ::
  "app \<Rightarrow> (string \<Rightarrow> string option) \<Rightarrow> settings \<Rightarrow> exn + jsval \<Rightarrow> plugin \<Rightarrow>
   plugin \<times> effect list" where
  "pollForRadarChanges a W st r s =
     (case bindE r Object_keys of
        Inl err \<Rightarrow> pollForRadarChanges_catch st err s
      | Inr radarIds \<Rightarrow>
          (let (s1, e1, thrown) = updateRadars a W st radarIds s
           in case thrown of
                Some err \<Rightarrow>
                  (let (s2, e2) = pollForRadarChanges_catch st err s1 in (s2, e1 @ e2))
              | None \<Rightarrow>
                  (s1, e1 @ [SetPluginStatus (''Connected - '' @ show_nat (length radarIds) @ '' radar(s)'')])))"

text \<open>
  What happens to the plugin, one event at a time: the host calls \<open>start\<close> or \<open>stop\<close>,
  or a request settles and its continuation runs. A continuation carries the settings
  of the \<open>start\<close> that led to it. \<open>ConnectSettled\<close> answers the \<open>connectAndDiscover\<close>
  call of an earlier start, \<open>PollSettled\<close> a tick of a discovery interval,
  \<open>RetrySettled\<close> a tick of a reconnect interval; since \<open>stop\<close> cancels no request,
  each of them can also arrive after a \<open>stop\<close> and after the next \<open>start\<close>.
\<close>

datatype plugin_event =
    PluginStart settings
  | PluginStop
  | ConnectSettled settings "exn + jsval"
  | PollSettled settings "exn + jsval"
  | RetrySettled bool settings "exn + jsval"

fun plugin_step ::
  "app \<Rightarrow> (string \<Rightarrow> string option) \<Rightarrow> plugin_event \<Rightarrow> plugin \<Rightarrow> plugin \<times> effect list" where
  "plugin_step a W (PluginStart st) s = (fst (plugin_start a st s), fst (snd (plugin_start a st s)))"
| "plugin_step a W PluginStop s = plugin_stop a s"
| "plugin_step a W (ConnectSettled st r) s = connectAndDiscover a W st r s"
| "plugin_step a W (PollSettled st r) s = pollForRadarChanges a W st r s"
| "plugin_step a W (RetrySettled logs st r) s = reconnect_attempt logs a W st r s"

fun plugin_run ::
  "app \<Rightarrow> (string \<Rightarrow> string option) \<Rightarrow> plugin_event list \<Rightarrow> plugin \<Rightarrow> plugin \<times> effect list" where
  "plugin_run a W [] s = (s, [])"
| "plugin_run a W (e # es) s =
     (let (s1, out1) = plugin_step a W e s; (s2, out2) = plugin_run a W es s1
      in (s2, out1 @ out2))"


text \<open>The relay table and the known set name the same ids, each once.\<close>

definition relay_inv :: "plugin \<Rightarrow> bool" where
  "relay_inv s =
     (distinct (knownRadars s) \<and> distinct (map fst (spokeForwarders s)) \<and>
      set (knownRadars s) = set (map fst (spokeForwarders s)))"

text \<open>Concrete surroundings for examples.\<close>

definition settings0 :: settings where
  "settings0 = \<lparr> cfg_host = Some ''h'', cfg_port = Some 1, cfg_secure = None,
                  cfg_discoveryPollInterval = None, cfg_reconnectInterval = None \<rparr>"

definition app_full :: app where
  "app_full = \<lparr> radarApi = True, register_error = None, unRegister_error = None,
                 app_binaryStreamManager = True \<rparr>"

definition app_no_streams :: app where
  "app_no_streams = \<lparr> radarApi = True, register_error = None, unRegister_error = None,
                       app_binaryStreamManager = False \<rparr>"


text \<open>The reconciler's calls of a forwarder's methods, among the effects.\<close>

fun is_call :: "effect \<Rightarrow> bool" where
  "is_call (CallStart _) = True"
| "is_call (CallStop _) = True"
| "is_call _ = False"

text \<open>The state when \<open>start\<close> has returned, on a freshly loaded plugin.\<close>

definition state_started :: plugin where
  "state_started = fst (plugin_start app_full settings0 plugin_init)"

text \<open>The state after a first pass over the list [A, B].\<close>

definition state_AB :: plugin where
  "state_AB = fst (updateRadars app_full ws_ok settings0 [''A'', ''B''] state_started)"


text \<open>
  The state after \<open>start\<close> and a first request that found the one radar A: connected,
  with the discovery interval running.
\<close>

definition state_connected :: plugin where
  "state_connected =
     fst (plugin_run app_full ws_ok
            [PluginStart settings0, ConnectSettled settings0 (Inr (JObj [(''A'', JObj [])]))]
            plugin_init)"

section \<open>Properties of the streaming relay\<close>

text \<open>
  C10. A message is forwarded to the sink exactly when its data is an ArrayBuffer or a
  Buffer and the sink reference is present; it is then emitted once, unmodified, under
  the key "radars/" + id. Every other message leaves no effect at all, and the handler
  never changes the relay.
\<close>

theorem C10_message_forwarding:
  "on_message d f =
     (f, if binaryStreamManager f \<and> is_binary d then [EmitData (streamId f) (payload d)] else [])
   \<and> streamId (SpokeForwarder rid u bsm ri) = ''radars/'' @ rid"
  by (cases d) (simp_all add: on_message_def SpokeForwarder_def)

theorem C10_message_forwarding_witness:
  "on_message (BufferData [1, 2]) (SpokeForwarder ''r1'' ''ws://h:1/x'' True 5000)
     = (SpokeForwarder ''r1'' ''ws://h:1/x'' True 5000, [EmitData ''radars/r1'' [1, 2]])
   \<and> on_message (TextData ''hi'') (SpokeForwarder ''r1'' ''ws://h:1/x'' True 5000)
     = (SpokeForwarder ''r1'' ''ws://h:1/x'' True 5000, [])
   \<and> on_message (ArrayBufferData [7]) (SpokeForwarder ''r1'' ''ws://h:1/x'' False 5000)
     = (SpokeForwarder ''r1'' ''ws://h:1/x'' False 5000, [])"
  using C10_message_forwarding [of "BufferData [1, 2]" "SpokeForwarder ''r1'' ''ws://h:1/x'' True 5000" "''r1''" "''ws://h:1/x''" True 5000]
        C10_message_forwarding [of "TextData ''hi''" "SpokeForwarder ''r1'' ''ws://h:1/x'' True 5000" "''r1''" "''ws://h:1/x''" True 5000]
        C10_message_forwarding [of "ArrayBufferData [7]" "SpokeForwarder ''r1'' ''ws://h:1/x'' False 5000" "''r1''" "''ws://h:1/x''" False 5000]
  by (simp add: SpokeForwarder_def)

subsection \<open>Stopping\<close>

lemma stop_fields:
  "closed (fst (stop f)) \<and> \<not> connected (fst (stop f)) \<and>
   reconnectTimer (fst (stop f)) = None \<and> ws (fst (stop f)) = None"
  by (simp add: stop_def Let_def split: option.splits)

lemma scheduleReconnect_closed: "closed f \<Longrightarrow> scheduleReconnect f = (f, [])"
  by (simp add: scheduleReconnect_def)

lemma connect_closed: "closed f \<Longrightarrow> connect W f = (f, [])"
  by (simp add: connect_def)

text \<open>One event on a stopped relay: it stays stopped, with no socket and no timer.\<close>

lemma fw_step_stopped:
  assumes "closed f" "ws f = None" "reconnectTimer f = None"
  shows "closed (fst (fw_step W e f)) \<and> ws (fst (fw_step W e f)) = None \<and>
         reconnectTimer (fst (fw_step W e f)) = None \<and>
         binaryStreamManager (fst (fw_step W e f)) = binaryStreamManager f \<and>
         streamId (fst (fw_step W e f)) = streamId f"
proof (cases e)
  case (EvMessage d)
  then show ?thesis using assms by (cases d) (simp_all add: on_message_def)
next
  case EvTimer
  then show ?thesis using assms by (simp add: on_timer_def connect_def Let_def)
qed (use assms in \<open>simp_all add: start_def stop_def on_open_def on_error_def on_close_def Let_def connect_def scheduleReconnect_def split: option.splits\<close>)

lemma fw_step_stopped_out:
  assumes "closed f" "ws f = None" "reconnectTimer f = None"
  shows "filter is_connect_effect (snd (fw_step W e f)) = [] \<and>
         filter is_emit (snd (fw_step W e f)) =
           (if binaryStreamManager f then map (EmitData (streamId f)) (frames_of [e]) else [])"
proof (cases e)
  case (EvMessage d)
  then show ?thesis by (cases d) (simp_all add: on_message_def)
next
  case EvTimer
  then show ?thesis using assms by (simp add: on_timer_def connect_def Let_def)
qed (use assms in \<open>simp_all add: start_def stop_def on_open_def on_error_def on_close_def Let_def connect_def scheduleReconnect_def split: option.splits\<close>)

lemma frames_of_Cons: "frames_of (e # es) = frames_of [e] @ frames_of es"
  by (cases e) simp_all

lemma fw_run_stopped:
  assumes "closed f" "ws f = None" "reconnectTimer f = None"
  shows "closed (fst (fw_run W evs f)) \<and> ws (fst (fw_run W evs f)) = None \<and>
         reconnectTimer (fst (fw_run W evs f)) = None \<and>
         filter is_connect_effect (snd (fw_run W evs f)) = [] \<and>
         filter is_emit (snd (fw_run W evs f)) =
           (if binaryStreamManager f then map (EmitData (streamId f)) (frames_of evs) else [])"
  using assms
proof (induction evs arbitrary: f)
  case Nil
  then show ?case by simp
next
  case (Cons e evs)
  let ?g = "fst (fw_step W e f)"
  have g: "closed ?g" "ws ?g = None" "reconnectTimer ?g = None"
    "binaryStreamManager ?g = binaryStreamManager f" "streamId ?g = streamId f"
    using fw_step_stopped [OF Cons.prems, of W e] by simp_all
  have out: "filter is_connect_effect (snd (fw_step W e f)) = []"
    "filter is_emit (snd (fw_step W e f)) =
       (if binaryStreamManager f then map (EmitData (streamId f)) (frames_of [e]) else [])"
    using fw_step_stopped_out [OF Cons.prems, of W e] by simp_all
  have run: "fw_run W (e # evs) f =
      (fst (fw_run W evs ?g), snd (fw_step W e f) @ snd (fw_run W evs ?g))"
    by (simp add: case_prod_beta)
  from Cons.IH [OF g(1-3)] g(4,5) out show ?case
    unfolding run frames_of_Cons [of e evs] by simp
qed

text \<open>
  C6. Calling stop() twice leaves the relay in the state one call leaves it in (closed,
  not connected, no timer, no socket handle). The second call has no branch that fails,
  closes no socket, cancels no timer and reaches neither the sink nor the status: apart
  from the debug log, which gets its line again, it has no effect at all.
\<close>

theorem C6_stop_idempotent:
  "fst (stop (fst (stop f))) = fst (stop f)
   \<and> closed (fst (stop f)) \<and> \<not> connected (fst (stop f))
   \<and> reconnectTimer (fst (stop f)) = None \<and> ws (fst (stop f)) = None
   \<and> filter (Not \<circ> is_debug) (snd (stop (fst (stop f)))) = []
   \<and> snd (stop (fst (stop f))) = [Debug (''Stopped spoke forwarder for '' @ radarId f)]"
  by (simp add: stop_def Let_def split: option.splits)

theorem C6_stop_idempotent_witness:
  "fst (stop (fst (stop (fst (fw_run ws_ok [EvStart, EvOpen] relay0)))))
     = fst (stop (fst (fw_run ws_ok [EvStart, EvOpen] relay0)))
   \<and> snd (stop (fst (fw_run ws_ok [EvStart, EvOpen] relay0)))
     = [WsCloseCall 0, Debug ''Stopped spoke forwarder for r1'']
   \<and> snd (stop (fst (stop (fst (fw_run ws_ok [EvStart, EvOpen] relay0)))))
     = [Debug ''Stopped spoke forwarder for r1'']"
  using C6_stop_idempotent [of "fst (fw_run ws_ok [EvStart, EvOpen] relay0)"]
  by (simp add: Let_def stop_def start_def connect_def on_open_def ws_ok_def relay0_def SpokeForwarder_def)

text \<open>
  C3 as stated fails: the message handler does not look at the closed flag, so a binary
  message delivered on the old socket after stop() has returned is still forwarded.
\<close>

theorem C3_message_after_stop_counterexample:
  "closed (fst (fw_run ws_ok [EvStart, EvOpen, EvStop] relay0))
   \<and> snd (fw_step ws_ok (EvMessage (ArrayBufferData [1, 2, 3]))
            (fst (fw_run ws_ok [EvStart, EvOpen, EvStop] relay0)))
     = [EmitData ''radars/r1'' [1, 2, 3]]"
  by (simp add: Let_def stop_def start_def connect_def on_open_def on_message_def ws_ok_def relay0_def
      SpokeForwarder_def)

text \<open>
  C3, amended. Once stop() has returned, no later sequence of events (method calls,
  open, message, error and close events of the old socket, the reconnect timer's
  callback) creates a socket or schedules a reconnect, and the relay stays closed with
  no socket and no timer. The frames forwarded after stop() are exactly the binary
  messages still delivered to the message handler while the sink is present: close,
  error, open and timer events forward nothing.
\<close>

theorem C3_after_stop:
  "closed (fst (fw_run W evs (fst (stop f))))
   \<and> ws (fst (fw_run W evs (fst (stop f)))) = None
   \<and> reconnectTimer (fst (fw_run W evs (fst (stop f)))) = None
   \<and> filter is_connect_effect (snd (fw_run W evs (fst (stop f)))) = []
   \<and> filter is_emit (snd (fw_run W evs (fst (stop f)))) =
       (if binaryStreamManager f then map (EmitData (streamId f)) (frames_of evs) else [])"
proof -
  have s: "closed (fst (stop f))" "ws (fst (stop f)) = None" "reconnectTimer (fst (stop f)) = None"
    using stop_fields [of f] by simp_all
  have k: "binaryStreamManager (fst (stop f)) = binaryStreamManager f"
    "streamId (fst (stop f)) = streamId f"
    by (simp_all add: stop_def Let_def split: option.splits)
  from fw_run_stopped [OF s, of W evs] k show ?thesis by simp
qed

theorem C3_after_stop_witness:
  "closed (fst (fw_run ws_ok [EvClose 1006 [], EvError ''reset'', EvTimer, EvStart]
                 (fst (stop (fst (fw_run ws_ok [EvStart, EvOpen] relay0))))))
   \<and> snd (fw_run ws_ok [EvClose 1006 [], EvError ''reset'', EvTimer, EvStart]
                 (fst (stop (fst (fw_run ws_ok [EvStart, EvOpen] relay0)))))
     = [Debug ''Spoke stream closed for r1: 1006 '', Debug ''Spoke stream error for r1: reset'']"
  using C3_after_stop [of ws_ok "[EvClose 1006 [], EvError ''reset'', EvTimer, EvStart]"
      "fst (fw_run ws_ok [EvStart, EvOpen] relay0)"]
  by (simp add: Let_def stop_def start_def connect_def on_open_def on_close_def on_error_def on_timer_def
      ws_ok_def relay0_def SpokeForwarder_def show_nat.simps digit_char_def)

section \<open>Properties of the backend client\<close>

text \<open>
  C9. The stream URL is a function of host, port, secure flag and id alone. For host "h",
  port 1 and id "x" it is ws://h:1/v2/api/radars/x/spokes, and with the secure flag
  wss://h:1/v2/api/radars/x/spokes; in general the two URLs are the schemes ws and wss
  followed by the same text, which holds the host, the port in decimal and the id. The
  function has no failing branch: it yields a string for every id.
\<close>

theorem C9_buildStreamUrl:
  "getSpokeStreamUrl (new_MayaraClient ''h'' 1 False) ''x'' = ''ws://h:1/v2/api/radars/x/spokes''
   \<and> getSpokeStreamUrl (new_MayaraClient ''h'' 1 True) ''x'' = ''wss://h:1/v2/api/radars/x/spokes''
   \<and> getSpokeStreamUrl (c\<lparr>secure := False\<rparr>) rid
       = ''ws'' @ ''://'' @ host c @ '':'' @ show_nat (port c) @ ''/v2/api/radars/'' @ rid @ ''/spokes''
   \<and> getSpokeStreamUrl (c\<lparr>secure := True\<rparr>) rid
       = ''wss'' @ ''://'' @ host c @ '':'' @ show_nat (port c) @ ''/v2/api/radars/'' @ rid @ ''/spokes''
   \<and> (host c = host c' \<and> port c = port c' \<and> secure c = secure c'
        \<longrightarrow> getSpokeStreamUrl c rid = getSpokeStreamUrl c' rid)"
  by (simp add: getSpokeStreamUrl_def new_MayaraClient_def show_nat.simps digit_char_def)

theorem C9_buildStreamUrl_witness:
  "getSpokeStreamUrl (client0\<lparr>secure := True\<rparr>) ''x'' = ''wss://h:1/v2/api/radars/x/spokes''
   \<and> getSpokeStreamUrl client0 ''x'' = getSpokeStreamUrl (client0\<lparr>timeout := 5\<rparr>) ''x''
   \<and> getSpokeStreamUrl client0 [] = ''ws://h:1/v2/api/radars//spokes''"
  using C9_buildStreamUrl [of client0 "''x''" "client0\<lparr>timeout := 5\<rparr>"]
        C9_buildStreamUrl [of client0 "[]" client0]
  by (simp add: client0_def new_MayaraClient_def getSpokeStreamUrl_def show_nat.simps digit_char_def)

text \<open>
  C5 as stated fails: a 2xx response whose body is not valid JSON does not reject the
  promise; the parse error is caught and the promise resolves with the raw body text.
\<close>

theorem C5_malformed_body_counterexample:
  "parse_sample ''<html>'' = None
   \<and> transport_garbled (mk_request client0 ''GET'' ''/v2/api/radars'' JNull) = Responded 200 ''<html>''
   \<and> client_getRadars parse_sample transport_garbled client0 = Inr (JStr ''<html>'')"
  by (simp add: parse_sample_def transport_garbled_def client_getRadars_def request_def settle_def)

text \<open>
  C5, amended. A request rejects exactly when the exchange ends in a network error, a
  timeout, or a response whose status is outside 200..299. On a 2xx response it always
  resolves: with the parsed body when the body is well-formed JSON, with null when the
  body is empty, and with the raw body text when the body is not valid JSON.
\<close>

theorem C5_request_outcomes:
  "isl (request P T c method path body)
     = (case T (mk_request c method path body) of
          Responded statusCode d \<Rightarrow> \<not> is_2xx statusCode
        | NetError msg \<Rightarrow> True
        | TimedOut \<Rightarrow> True)
   \<and> (T (mk_request c method path body) = NetError msg
        \<longrightarrow> request P T c method path body = Inl (JsError msg))
   \<and> (T (mk_request c method path body) = TimedOut
        \<longrightarrow> request P T c method path body = Inl (JsError ''Request timeout''))
   \<and> (T (mk_request c method path body) = Responded statusCode d \<and> \<not> is_2xx statusCode
        \<longrightarrow> request P T c method path body
              = Inl (JsError (''HTTP '' @ show_nat statusCode @ '': '' @ d)))
   \<and> (T (mk_request c method path body) = Responded statusCode d \<and> is_2xx statusCode
          \<and> d \<noteq> [] \<and> P d = Some v
        \<longrightarrow> request P T c method path body = Inr v)
   \<and> (T (mk_request c method path body) = Responded statusCode [] \<and> is_2xx statusCode
        \<longrightarrow> request P T c method path body = Inr JNull)
   \<and> (T (mk_request c method path body) = Responded statusCode d \<and> is_2xx statusCode
          \<and> d \<noteq> [] \<and> P d = None
        \<longrightarrow> request P T c method path body = Inr (JStr d))
   \<and> client_getRadars P T c = request P T c ''GET'' ''/v2/api/radars'' JNull"
  by (cases "T (mk_request c method path body)")
     (auto simp add: request_def settle_def is_2xx_def client_getRadars_def split: option.splits)

theorem C5_request_outcomes_witness:
  "client_getRadars parse_sample transport_refused client0 = Inl (JsError ''connect ECONNREFUSED'')
   \<and> isl (client_getRadars parse_sample transport_refused client0)
   \<and> \<not> isl (client_getRadars parse_sample transport_garbled client0)"
  using C5_request_outcomes [of parse_sample transport_refused client0 "''GET''" "''/v2/api/radars''"
          JNull "''connect ECONNREFUSED''" 0 "[]" JNull]
        C5_request_outcomes [of parse_sample transport_garbled client0 "''GET''" "''/v2/api/radars''"
          JNull "[]" 200 "''<html>''" JNull]
  by (simp add: transport_refused_def transport_garbled_def is_2xx_def)

section \<open>Properties of the device proxy\<close>

lemma try_catch_Inl: "try_catch (Inl e) h = (Inr (fst (h e)), snd (h e))"
  by (simp add: try_catch_def split: prod.splits)

lemma try_catch_resolves: "\<not> isl (fst (try_catch body h))"
  by (cases body) (simp_all add: try_catch_def split: prod.splits)

text \<open>
  C4 as stated fails on two counts: when the backend call rejects, getRadars returns the
  empty list, not null, and setPower (like the other boolean mutators) returns the
  boolean false, not an object with a success field.
\<close>

theorem C4_failure_shapes_counterexample:
  "client_getRadars parse_sample transport_refused client0 = Inl (JsError ''connect ECONNREFUSED'')
   \<and> fst (provider_getRadars parse_sample transport_refused client0) = Inr (JArr [])
   \<and> fst (provider_getRadars parse_sample transport_refused client0) \<noteq> Inr JNull
   \<and> isl (client_setControl parse_sample transport_refused client0 ''r1'' ''power'' (JStr ''transmit''))
   \<and> fst (provider_setPower parse_sample transport_refused client0 ''r1'' (JStr ''transmit''))
       = Inr (JBool False)"
  by (simp add: provider_getRadars_def provider_setPower_def client_getRadars_def
      client_setControl_def request_def settle_def transport_refused_def try_catch_def)

text \<open>
  C4, amended. When the backend call a method makes rejects: getRadars returns the empty
  list; getRadarInfo, getCapabilities, getState, getControl and getTargets return null;
  setPower, setRange, setGain, setSea, setRain, setControls and cancelTarget return the
  boolean false; setControl and acquireTarget return an object with success false and the
  error's message. For setGain, setSea and setRain the call made is the one that sends
  the mode and value object built from the argument; they also return false when that
  object cannot be built. No method rejects, whatever the backend does.
\<close>

theorem C4_proxy_failures:
  "(client_getRadars P T c = Inl e \<longrightarrow> fst (provider_getRadars P T c) = Inr (JArr []))
   \<and> (client_getState P T c rid = Inl e \<longrightarrow>
        fst (provider_getRadarInfo P T S c rid) = Inr JNull
        \<and> fst (provider_getState P T c rid) = Inr JNull
        \<and> fst (provider_getControl P T c rid controlId) = Inr JNull)
   \<and> (client_getCapabilities P T c rid = Inl e \<longrightarrow>
        fst (provider_getRadarInfo P T S c rid) = Inr JNull
        \<and> fst (provider_getCapabilities P T c rid) = Inr JNull)
   \<and> (client_getTargets P T c rid = Inl e \<longrightarrow> fst (provider_getTargets P T c rid) = Inr JNull)
   \<and> (client_setControl P T c rid ''power'' v = Inl e \<longrightarrow>
        fst (provider_setPower P T c rid v) = Inr (JBool False))
   \<and> (client_setControl P T c rid ''range'' v = Inl e \<longrightarrow>
        fst (provider_setRange P T c rid v) = Inr (JBool False))
   \<and> (mode_value v 50 = Inr w \<and> client_setControl P T c rid ''gain'' w = Inl e \<longrightarrow>
        fst (provider_setGain P T c rid v) = Inr (JBool False))
   \<and> (isl (mode_value v 50) \<longrightarrow> fst (provider_setGain P T c rid v) = Inr (JBool False))
   \<and> (mode_value v 50 = Inr w \<and> client_setControl P T c rid ''sea'' w = Inl e \<longrightarrow>
        fst (provider_setSea P T c rid v) = Inr (JBool False))
   \<and> (isl (mode_value v 50) \<longrightarrow> fst (provider_setSea P T c rid v) = Inr (JBool False))
   \<and> (mode_value v 0 = Inr w0 \<and> client_setControl P T c rid ''rain'' w0 = Inl e \<longrightarrow>
        fst (provider_setRain P T c rid v) = Inr (JBool False))
   \<and> (isl (mode_value v 0) \<longrightarrow> fst (provider_setRain P T c rid v) = Inr (JBool False))
   \<and> (client_setControls P T c rid v = Inl e \<longrightarrow>
        fst (provider_setControls P T c rid v) = Inr (JBool False))
   \<and> (client_cancelTarget P T c rid targetId = Inl e \<longrightarrow>
        fst (provider_cancelTarget P T c rid targetId) = Inr (JBool False))
   \<and> (client_setControl P T c rid controlId v = Inl e \<longrightarrow>
        fst (provider_setControl P T c rid controlId v)
          = Inr (JObj [(''success'', JBool False), (''error'', JStr (message e))]))
   \<and> (client_acquireTarget P T c rid bearing distance = Inl e \<longrightarrow>
        fst (provider_acquireTarget P T c rid bearing distance)
          = Inr (JObj [(''success'', JBool False), (''error'', JStr (message e))]))
   \<and> \<not> isl (fst (provider_getRadars P T c))
   \<and> \<not> isl (fst (provider_getRadarInfo P T S c rid))
   \<and> \<not> isl (fst (provider_getCapabilities P T c rid))
   \<and> \<not> isl (fst (provider_getState P T c rid))
   \<and> \<not> isl (fst (provider_getControl P T c rid controlId))
   \<and> \<not> isl (fst (provider_getTargets P T c rid))
   \<and> \<not> isl (fst (provider_setPower P T c rid v))
   \<and> \<not> isl (fst (provider_setRange P T c rid v))
   \<and> \<not> isl (fst (provider_setGain P T c rid v))
   \<and> \<not> isl (fst (provider_setSea P T c rid v))
   \<and> \<not> isl (fst (provider_setRain P T c rid v))
   \<and> \<not> isl (fst (provider_setControl P T c rid controlId v))
   \<and> \<not> isl (fst (provider_setControls P T c rid v))
   \<and> \<not> isl (fst (provider_acquireTarget P T c rid bearing distance))
   \<and> \<not> isl (fst (provider_cancelTarget P T c rid targetId))"
proof -
  have getters:
    "client_getRadars P T c = Inl e \<longrightarrow> fst (provider_getRadars P T c) = Inr (JArr [])"
    "client_getState P T c rid = Inl e \<longrightarrow>
        fst (provider_getRadarInfo P T S c rid) = Inr JNull
        \<and> fst (provider_getState P T c rid) = Inr JNull
        \<and> fst (provider_getControl P T c rid controlId) = Inr JNull"
    "client_getTargets P T c rid = Inl e \<longrightarrow> fst (provider_getTargets P T c rid) = Inr JNull"
    by (simp_all add: provider_getRadars_def provider_getRadarInfo_def provider_getState_def
        provider_getControl_def provider_getTargets_def try_catch_Inl)
  have caps: "client_getCapabilities P T c rid = Inl e \<longrightarrow>
        fst (provider_getRadarInfo P T S c rid) = Inr JNull
        \<and> fst (provider_getCapabilities P T c rid) = Inr JNull"
    by (cases "client_getState P T c rid")
       (simp_all add: provider_getRadarInfo_def provider_getCapabilities_def try_catch_Inl try_catch_def)
  have bools:
    "client_setControl P T c rid ''power'' v = Inl e \<longrightarrow>
        fst (provider_setPower P T c rid v) = Inr (JBool False)"
    "client_setControl P T c rid ''range'' v = Inl e \<longrightarrow>
        fst (provider_setRange P T c rid v) = Inr (JBool False)"
    "client_setControls P T c rid v = Inl e \<longrightarrow>
        fst (provider_setControls P T c rid v) = Inr (JBool False)"
    "client_cancelTarget P T c rid targetId = Inl e \<longrightarrow>
        fst (provider_cancelTarget P T c rid targetId) = Inr (JBool False)"
    by (simp_all add: provider_setPower_def provider_setRange_def provider_setControls_def
        provider_cancelTarget_def try_catch_Inl)
  have clutter:
    "(mode_value v d = Inr w \<and> client_setControl P T c rid k w = Inl e \<longrightarrow>
        fst (try_catch (bindE (mode_value v d) (\<lambda>w.
               bindE (client_setControl P T c rid k w) (\<lambda>_. Inr (JBool True))))
             (\<lambda>err. (JBool False, [Debug (m err)]))) = Inr (JBool False))
     \<and> (isl (mode_value v d) \<longrightarrow>
        fst (try_catch (bindE (mode_value v d) (\<lambda>w.
               bindE (client_setControl P T c rid k w) (\<lambda>_. Inr (JBool True))))
             (\<lambda>err. (JBool False, [Debug (m err)]))) = Inr (JBool False))" for k d m w
    by (cases "mode_value v d") (simp_all add: try_catch_Inl)
  have objs:
    "client_setControl P T c rid controlId v = Inl e \<longrightarrow>
        fst (provider_setControl P T c rid controlId v)
          = Inr (JObj [(''success'', JBool False), (''error'', JStr (message e))])"
    "client_acquireTarget P T c rid bearing distance = Inl e \<longrightarrow>
        fst (provider_acquireTarget P T c rid bearing distance)
          = Inr (JObj [(''success'', JBool False), (''error'', JStr (message e))])"
    by (simp_all add: provider_setControl_def provider_acquireTarget_def try_catch_Inl
        failure_result_def)
  show ?thesis
    using getters caps bools objs
      clutter [of 50 w "''gain''" "\<lambda>err. ''setGain error for '' @ rid @ '': '' @ message err"]
      clutter [of 50 w "''sea''" "\<lambda>err. ''setSea error for '' @ rid @ '': '' @ message err"]
      clutter [of 0 w0 "''rain''" "\<lambda>err. ''setRain error for '' @ rid @ '': '' @ message err"]
    unfolding provider_setGain_def [symmetric] provider_setSea_def [symmetric]
      provider_setRain_def [symmetric]
    by (simp add: try_catch_resolves provider_getRadars_def provider_getRadarInfo_def
        provider_getCapabilities_def provider_getState_def provider_getControl_def
        provider_getTargets_def provider_setPower_def provider_setRange_def provider_setGain_def
        provider_setSea_def provider_setRain_def provider_setControl_def provider_setControls_def
        provider_acquireTarget_def provider_cancelTarget_def)
qed


theorem C4_proxy_failures_witness:
  "fst (provider_getState parse_sample transport_refused client0 ''r1'') = Inr JNull
   \<and> fst (provider_getRadarInfo parse_sample transport_refused string_sample client0 ''r1'') = Inr JNull
   \<and> fst (provider_setControl parse_sample transport_refused client0 ''r1'' ''gain'' (JObj [(''auto'', JBool True)]))
       = Inr (JObj [(''success'', JBool False), (''error'', JStr ''connect ECONNREFUSED'')])
   \<and> fst (provider_setGain parse_sample transport_refused client0 ''r1'' (JObj [(''auto'', JBool True)]))
       = Inr (JBool False)
   \<and> fst (provider_cancelTarget parse_sample transport_refused client0 ''r1'' 7) = Inr (JBool False)
   \<and> fst (provider_setGain parse_sample transport_picky client0 ''r1'' (JObj [(''auto'', JBool True)]))
       = Inr (JBool False)
   \<and> fst (provider_setGain parse_sample transport_picky client0 ''r1'' (JObj [(''auto'', JBool False)]))
       = Inr (JBool True)"
  using C4_proxy_failures [where P = parse_sample and T = transport_refused and c = client0
      and e = "JsError ''connect ECONNREFUSED''" and rid = "''r1''" and S = string_sample
      and controlId = "''gain''" and v = "JObj [(''auto'', JBool True)]" and targetId = 7
      and bearing = JNull and distance = JNull
      and w = "JObj [(''mode'', JStr ''auto''), (''value'', JNum 50)]"
      and ?w0.0 = "JObj [(''mode'', JStr ''auto''), (''value'', JNum 0)]"]
    C4_proxy_failures [where P = parse_sample and T = transport_picky and c = client0
      and e = "JsError ''HTTP 400: no auto''" and rid = "''r1''" and S = string_sample
      and controlId = "''gain''" and v = "JObj [(''auto'', JBool True)]" and targetId = 7
      and bearing = JNull and distance = JNull
      and w = "JObj [(''mode'', JStr ''auto''), (''value'', JNum 50)]"
      and ?w0.0 = "JObj [(''mode'', JStr ''auto''), (''value'', JNum 0)]"]
  by (simp add: client_getState_def client_getCapabilities_def client_setControl_def
      client_cancelTarget_def client_getRadars_def client_getTargets_def client_setControls_def
      client_acquireTarget_def request_def settle_def transport_refused_def transport_picky_def
      mk_request_def parse_sample_def provider_setGain_def try_catch_def
      mode_value_def get_prop_def js_coalesce_def show_nat.simps digit_char_def)

section \<open>Properties of reconciliation\<close>

subsection \<open>What the two loops of updateRadars do to the known set and the relay table\<close>

lemma set_new_Set_aux: "set (foldl set_add acc xs) = set acc \<union> set xs"
  by (induction xs arbitrary: acc) (auto simp: set_add_def)

lemma distinct_new_Set_aux: "distinct acc \<Longrightarrow> distinct (foldl set_add acc xs)"
  by (induction xs arbitrary: acc) (auto simp: set_add_def)

lemma set_new_Set: "set (new_Set xs) = set xs"
  by (simp add: new_Set_def set_new_Set_aux)




text \<open>The first loop throws only with the stream manager present and the client null.\<close>

lemma add_new_completes:
  "client s \<noteq> None \<or> \<not> app_binaryStreamManager a \<Longrightarrow> snd (snd (add_new a W st ids s)) = None"
  by (induction ids arbitrary: s) (auto simp: Let_def case_prod_beta split: option.splits)

lemma add_new_known:
  "client s \<noteq> None \<or> \<not> app_binaryStreamManager a \<Longrightarrow>
   set (knownRadars (fst (add_new a W st ids s))) = set (knownRadars s) \<union> set ids"
  by (induction ids arbitrary: s) (auto simp: Let_def set_add_def case_prod_beta split: option.splits)

lemma add_new_known_distinct:
  "distinct (knownRadars s) \<Longrightarrow> distinct (knownRadars (fst (add_new a W st ids s)))"
  by (induction ids arbitrary: s) (auto simp: Let_def set_add_def case_prod_beta split: option.splits)

lemma add_new_keys:
  "app_binaryStreamManager a \<Longrightarrow> client s \<noteq> None \<Longrightarrow>
   fst ` set (spokeForwarders (fst (add_new a W st ids s)))
     = fst ` set (spokeForwarders s) \<union> (set ids - set (knownRadars s))"
proof (induction ids arbitrary: s)
  case Nil
  then show ?case by simp
next
  case (Cons rid ids)
  from Cons.prems obtain c where c: "client s = Some c" by auto
  show ?case
  proof (cases "rid \<in> set (knownRadars s)")
    case True
    with Cons show ?thesis by auto
  next
    case False
    let ?f = "fst (start W (SpokeForwarder rid (getSpokeStreamUrl c rid) (app_binaryStreamManager a) (reconnectMs st)))"
    let ?s2 = "s\<lparr>knownRadars := set_add (knownRadars s) rid, spokeForwarders := AList.update rid ?f (spokeForwarders s)\<rparr>"
    have eq: "fst (add_new a W st (rid # ids) s) = fst (add_new a W st ids ?s2)"
      using False Cons.prems c by (simp add: Let_def case_prod_beta)
    have c2: "client ?s2 \<noteq> None" using c by simp
    show ?thesis unfolding eq Cons.IH [OF Cons.prems(1) c2]
      using False by (auto simp: set_add_def AList.dom_update)
  qed
qed

lemma add_new_keys_distinct:
  "distinct (map fst (spokeForwarders s)) \<Longrightarrow>
   distinct (map fst (spokeForwarders (fst (add_new a W st ids s))))"
  by (induction ids arbitrary: s)
     (auto simp: Let_def AList.distinct_update case_prod_beta split: option.splits)

lemma remove_gone_known:
  "set (knownRadars (fst (remove_gone cur ids s))) = set (knownRadars s) - (set ids - set cur)"
  by (induction ids arbitrary: s) (auto simp: Let_def case_prod_beta split: option.splits)

lemma remove_gone_known_distinct:
  "distinct (knownRadars s) \<Longrightarrow> distinct (knownRadars (fst (remove_gone cur ids s)))"
  by (induction ids arbitrary: s)
     (auto simp: Let_def distinct_removeAll case_prod_beta split: option.splits)

lemma keys_delete: "fst ` set (AList.delete k al) = fst ` set al - {k}"
  by (induction al) (auto simp: AList.delete_eq)

lemma remove_gone_keys:
  "fst ` set (spokeForwarders (fst (remove_gone cur ids s)))
     = fst ` set (spokeForwarders s) - (set ids - set cur)"
proof (induction ids arbitrary: s)
  case Nil
  then show ?case by simp
next
  case (Cons rid ids)
  show ?case
  proof (cases "rid \<in> set cur")
    case True
    with Cons show ?thesis by auto
  next
    case False
    show ?thesis
    proof (cases "map_of (spokeForwarders s) rid")
      case None
      then have "rid \<notin> fst ` set (spokeForwarders s)"
        by (simp add: map_of_eq_None_iff)
      with None False Cons show ?thesis
        by (auto simp: Let_def case_prod_beta)
    next
      case (Some f)
      with False Cons show ?thesis
        by (auto simp: Let_def keys_delete case_prod_beta)
    qed
  qed
qed

lemma remove_gone_keys_distinct:
  "distinct (map fst (spokeForwarders s)) \<Longrightarrow>
   distinct (map fst (spokeForwarders (fst (remove_gone cur ids s))))"
  by (induction ids arbitrary: s)
     (auto simp: Let_def AList.distinct_delete case_prod_beta split: option.splits)

lemma updateRadars_completes:
  "client s \<noteq> None \<or> \<not> app_binaryStreamManager a \<Longrightarrow>
   snd (snd (updateRadars a W st radarIds s)) = None"
  using add_new_completes [of s a W st "new_Set radarIds"]
  by (simp add: updateRadars_def Let_def case_prod_beta split: option.splits)

lemma updateRadars_fst:
  "client s \<noteq> None \<or> \<not> app_binaryStreamManager a \<Longrightarrow>
   fst (updateRadars a W st radarIds s)
     = fst (remove_gone (new_Set radarIds)
              (knownRadars (fst (add_new a W st (new_Set radarIds) s)))
              (fst (add_new a W st (new_Set radarIds) s)))"
  using add_new_completes [of s a W st "new_Set radarIds"]
  by (simp add: updateRadars_def Let_def case_prod_beta split: option.splits)

lemma updateRadars_known:
  assumes "client s \<noteq> None \<or> \<not> app_binaryStreamManager a"
  shows "set (knownRadars (fst (updateRadars a W st radarIds s))) = set radarIds"
  unfolding updateRadars_fst [OF assms] remove_gone_known add_new_known [OF assms] set_new_Set
  by auto

lemma state_started_eq: "state_started = plugin_init\<lparr>client := Some client0\<rparr>"
  by (simp add: state_started_def plugin_start_def Let_def app_full_def settings0_def client0_def
      host_or_default_def or_default_def secure_or_default_def)

text \<open>
  The error path of a pass: with the stream manager present and the client null, as
  after stop, a new id is added to the known set and the pass throws before a relay
  is made.
\<close>

lemma updateRadars_without_client:
  "client (fst (plugin_stop app_full state_connected)) = None
   \<and> knownRadars (fst (updateRadars app_full ws_ok settings0 [''A'']
                         (fst (plugin_stop app_full state_connected)))) = [''A'']
   \<and> spokeForwarders (fst (updateRadars app_full ws_ok settings0 [''A'']
                         (fst (plugin_stop app_full state_connected)))) = []
   \<and> snd (updateRadars app_full ws_ok settings0 [''A''] (fst (plugin_stop app_full state_connected)))
       = ([Debug ''New radar discovered: A''],
          Some (JsError ''Cannot read properties of null (reading getSpokeStreamUrl)''))"
  by (simp add: updateRadars_def new_Set_def set_add_def Let_def case_prod_beta app_full_def
      plugin_stop_def split: option.splits)

lemma plugin_stop_fields:
  "discoveryInterval (fst (plugin_stop a s)) = None
   \<and> reconnectInterval (fst (plugin_stop a s)) = None
   \<and> client (fst (plugin_stop a s)) = None
   \<and> knownRadars (fst (plugin_stop a s)) = []
   \<and> spokeForwarders (fst (plugin_stop a s)) = []"
  by (simp add: plugin_stop_def Let_def case_prod_beta split: option.splits)

text \<open>
  C1 as stated fails: without app.binaryStreamManager the pass adds a new id to
  knownRadars and creates no forwarder for it, so from the state start leaves, where the
  two agree, one pass over the list [A] leaves A known with no relay.
\<close>

theorem C1_no_stream_manager_counterexample:
  "relay_inv (fst (plugin_start app_no_streams settings0 plugin_init))
   \<and> knownRadars (fst (updateRadars app_no_streams ws_ok settings0 [''A'']
                         (fst (plugin_start app_no_streams settings0 plugin_init)))) = [''A'']
   \<and> spokeForwarders (fst (updateRadars app_no_streams ws_ok settings0 [''A'']
                         (fst (plugin_start app_no_streams settings0 plugin_init)))) = []
   \<and> snd (snd (updateRadars app_no_streams ws_ok settings0 [''A'']
                         (fst (plugin_start app_no_streams settings0 plugin_init)))) = None
   \<and> \<not> relay_inv (fst (updateRadars app_no_streams ws_ok settings0 [''A'']
                         (fst (plugin_start app_no_streams settings0 plugin_init))))"
  by (simp add: relay_inv_def plugin_init_def plugin_start_def updateRadars_def new_Set_def
      set_add_def Let_def app_no_streams_def)

text \<open>
  C1, amended. The two structures agree initially and after every stop (both empty). A
  pass run while the client is set, or without the stream manager, completes, and leaves
  the known set exactly the set of ids observed. When app.binaryStreamManager is
  available and the client is set, every pass that starts with knownRadars equal to the
  key set of spokeForwarders (each id once) ends with them equal: every known id has
  exactly one relay and every relay's id is known.
\<close>

theorem C1_reconciliation_invariant:
  "relay_inv plugin_init \<and> relay_inv (fst (plugin_stop a s))
   \<and> (client s \<noteq> None \<or> \<not> app_binaryStreamManager a \<longrightarrow>
        snd (snd (updateRadars a W st radarIds s)) = None
        \<and> set (knownRadars (fst (updateRadars a W st radarIds s))) = set radarIds)
   \<and> (app_binaryStreamManager a \<and> client s \<noteq> None \<and> relay_inv s \<longrightarrow>
        relay_inv (fst (updateRadars a W st radarIds s)))"
proof -
  have "relay_inv (fst (updateRadars a W st radarIds s))"
    if bsm: "app_binaryStreamManager a" and cl: "client s \<noteq> None" and inv: "relay_inv s"
  proof -
    from cl have ok: "client s \<noteq> None \<or> \<not> app_binaryStreamManager a" by simp
    from inv have d: "distinct (knownRadars s)" "distinct (map fst (spokeForwarders s))"
      and e: "set (knownRadars s) = fst ` set (spokeForwarders s)"
      by (simp_all add: relay_inv_def)
    have "fst ` set (spokeForwarders (fst (updateRadars a W st radarIds s))) = set radarIds"
      unfolding updateRadars_fst [OF ok] remove_gone_keys add_new_keys [OF bsm cl]
        add_new_known [OF ok] set_new_Set
      using e by auto
    then show ?thesis
      using d unfolding relay_inv_def updateRadars_known [OF ok]
      by (simp add: updateRadars_fst [OF ok] remove_gone_known_distinct add_new_known_distinct
          remove_gone_keys_distinct add_new_keys_distinct)
  qed
  then show ?thesis
    by (simp add: updateRadars_known updateRadars_completes)
       (simp add: relay_inv_def plugin_init_def plugin_stop_fields)
qed

theorem C1_reconciliation_invariant_witness:
  "client state_started = Some client0 \<and> relay_inv state_started
   \<and> relay_inv (fst (updateRadars app_full ws_ok settings0 [''A'', ''B''] state_started))
   \<and> relay_inv (fst (updateRadars app_full ws_ok settings0 [''B'', ''C'']
                  (fst (updateRadars app_full ws_ok settings0 [''A'', ''B''] state_started))))
   \<and> map fst (spokeForwarders (fst (updateRadars app_full ws_ok settings0 [''B'', ''C'']
                  (fst (updateRadars app_full ws_ok settings0 [''A'', ''B''] state_started)))))
       = [''B'', ''C'']"
  using C1_reconciliation_invariant [where s = state_started and a = app_full and W = ws_ok
       and st = settings0 and radarIds = "[''A'', ''B'']"]
    C1_reconciliation_invariant [where
       s = "fst (updateRadars app_full ws_ok settings0 [''A'', ''B''] state_started)"
       and a = app_full and W = ws_ok and st = settings0 and radarIds = "[''B'', ''C'']"]
  by (simp add: app_full_def state_started_eq)
     (simp add: plugin_init_def updateRadars_def new_Set_def set_add_def Let_def relay_inv_def
       start_def connect_def stop_def ws_ok_def SpokeForwarder_def)

subsection \<open>A device leaves and another arrives\<close>

lemma start_no_calls: "filter is_call (snd (start W f)) = []"
  by (simp add: start_def connect_def scheduleReconnect_def Let_def case_prod_beta split: option.splits)

lemma stop_no_calls: "filter is_call (snd (stop f)) = []"
  by (simp add: stop_def Let_def case_prod_beta split: option.splits)

lemma two_element_list:
  assumes "distinct xs" "set xs = {A, B}" "A \<noteq> B"
  shows "xs = [A, B] \<or> xs = [B, A]"
proof -
  from assms have "length xs = 2"
    using distinct_card [of xs] by simp
  then obtain x y where xs: "xs = [x, y]"
    by (auto simp: numeral_2_eq_2 length_Suc_conv)
  from assms(2) have "{x, y} = {A, B}" unfolding xs by simp
  then have "(x = A \<and> y = B) \<or> (x = B \<and> y = A)"
    by (simp add: doubleton_eq_iff)
  then show ?thesis unfolding xs by simp
qed

lemma two_entry_alist:
  assumes "distinct (map fst al)" "fst ` set al = {A, B}" "A \<noteq> B"
    "map_of al A = Some fa" "map_of al B = Some fb"
  shows "al = [(A, fa), (B, fb)] \<or> al = [(B, fb), (A, fa)]"
proof -
  have "map fst al = [A, B] \<or> map fst al = [B, A]"
    using two_element_list [of "map fst al" A B] assms(1-3) by simp
  then show ?thesis
  proof
    assume "map fst al = [A, B]"
    then obtain x y where al: "al = [(A, x), (B, y)]"
      by (auto simp: map_eq_Cons_conv)
    from assms(4,5) assms(3) have "x = fa" "y = fb" unfolding al by simp_all
    then show ?thesis unfolding al by simp
  next
    assume "map fst al = [B, A]"
    then obtain x y where al: "al = [(B, y), (A, x)]"
      by (auto simp: map_eq_Cons_conv)
    from assms(4,5) assms(3) have "x = fa" "y = fb" unfolding al by simp_all
    then show ?thesis unfolding al by simp
  qed
qed

text \<open>
  C2. The known set is {A, B}, each with one relay, the stream manager is there and the
  client is set (as both are whenever relays exist), and a pass observes [B, C]. The
  pass completes. Afterwards the relay table and the known set hold exactly B and C. The
  pass calls a forwarder's method twice: start() once, on the new relay of C, and stop()
  once, on the relay of A. B's relay is the same object in the same state: nothing was
  called on it.
\<close>

theorem C2_churn_scenario:
  assumes "A \<noteq> B" "A \<noteq> C" "B \<noteq> C"
    and "app_binaryStreamManager a" "client s = Some c"
    and "distinct (knownRadars s)" "set (knownRadars s) = {A, B}"
    and "distinct (map fst (spokeForwarders s))" "fst ` set (spokeForwarders s) = {A, B}"
    and "map_of (spokeForwarders s) A = Some fa" "map_of (spokeForwarders s) B = Some fb"
  shows "fst ` set (spokeForwarders (fst (updateRadars a W st [B, C] s))) = {B, C}
    \<and> set (knownRadars (fst (updateRadars a W st [B, C] s))) = {B, C}
    \<and> filter is_call (fst (snd (updateRadars a W st [B, C] s))) = [CallStart C, CallStop A]
    \<and> snd (snd (updateRadars a W st [B, C] s)) = None
    \<and> map_of (spokeForwarders (fst (updateRadars a W st [B, C] s))) B = Some fb
    \<and> map_of (spokeForwarders (fst (updateRadars a W st [B, C] s))) C
         = Some (fst (start W (SpokeForwarder C (getSpokeStreamUrl c C) True (reconnectMs st))))
    \<and> map_of (spokeForwarders (fst (updateRadars a W st [B, C] s))) A = None"
proof -
  have k: "knownRadars s = [A, B] \<or> knownRadars s = [B, A]"
    by (rule two_element_list [OF assms(6,7,1)])
  have f: "spokeForwarders s = [(A, fa), (B, fb)] \<or> spokeForwarders s = [(B, fb), (A, fa)]"
    by (rule two_entry_alist [OF assms(8,9,1,10,11)])
  have n: "new_Set [B, C] = [B, C]"
    using assms(3) by (simp add: new_Set_def set_add_def)
  from k f show ?thesis
    using assms(1-5) unfolding updateRadars_def n
    by (elim disjE)
       (simp_all add: Let_def case_prod_beta set_add_def start_no_calls stop_no_calls)
qed

lemma state_AB_eq:
  "state_AB = plugin_init\<lparr>
     client := Some client0,
     knownRadars := [''A'', ''B''],
     spokeForwarders :=
       [(''A'', fst (start ws_ok (SpokeForwarder ''A'' (getSpokeStreamUrl client0 ''A'') True (reconnectMs settings0)))),
        (''B'', fst (start ws_ok (SpokeForwarder ''B'' (getSpokeStreamUrl client0 ''B'') True (reconnectMs settings0))))]\<rparr>"
  by (simp add: state_AB_def state_started_eq updateRadars_def new_Set_def set_add_def Let_def
      case_prod_beta app_full_def plugin_init_def)

theorem C2_churn_scenario_witness:
  "map fst (spokeForwarders state_AB) = [''A'', ''B'']
   \<and> fst ` set (spokeForwarders (fst (updateRadars app_full ws_ok settings0 [''B'', ''C''] state_AB)))
       = {''B'', ''C''}
   \<and> filter is_call (fst (snd (updateRadars app_full ws_ok settings0 [''B'', ''C''] state_AB)))
       = [CallStart ''C'', CallStop ''A'']
   \<and> map_of (spokeForwarders (fst (updateRadars app_full ws_ok settings0 [''B'', ''C''] state_AB))) ''B''
       = map_of (spokeForwarders state_AB) ''B''"
  using C2_churn_scenario [of "''A''" "''B''" "''C''" app_full state_AB client0
      "fst (start ws_ok (SpokeForwarder ''A'' (getSpokeStreamUrl client0 ''A'') True (reconnectMs settings0)))"
      "fst (start ws_ok (SpokeForwarder ''B'' (getSpokeStreamUrl client0 ''B'') True (reconnectMs settings0)))"
      ws_ok settings0]
  by (simp add: state_AB_eq app_full_def plugin_init_def)

section \<open>Properties of the connection regimes\<close>

lemma state_connected_eq:
  "state_connected =
     plugin_init\<lparr>
       client := Some client0,
       isConnected := True,
       knownRadars := [''A''],
       spokeForwarders :=
         [(''A'', fst (start ws_ok (SpokeForwarder ''A'' (getSpokeStreamUrl client0 ''A'') True 5000)))],
       discoveryInterval := Some 0,
       intervalCount := Suc 0\<rparr>"
  by (simp add: state_connected_def connectAndDiscover_def plugin_start_def updateRadars_def
      set_discoveryInterval_def new_Set_def set_add_def Let_def case_prod_beta app_full_def
      plugin_init_def settings0_def client0_def host_or_default_def or_default_def
      secure_or_default_def reconnectMs_def)

text \<open>
  C7. When a discovery poll fails (the request rejects, or the answer has no keys to
  read), the handler sets isConnected to false, reports the error as the status, cancels
  the discovery interval if one is set and starts the reconnect interval. Nothing else
  changes: knownRadars and spokeForwarders are as before, and no forwarder's stop() or
  start() is called.
\<close>

theorem C7_poll_failure_frame:
  assumes "bindE r Object_keys = Inl err"
  shows "fst (pollForRadarChanges a W st r s)
           = s\<lparr>isConnected := False, discoveryInterval := None,
                reconnectInterval := Some (intervalCount s),
                intervalCount := Suc (intervalCount s)\<rparr>
    \<and> snd (pollForRadarChanges a W st r s)
           = SetPluginError (''Lost connection: '' @ message err)
             # clearInterval (discoveryInterval s)
             @ [SetInterval (intervalCount s) (reconnectMs st)]
    \<and> knownRadars (fst (pollForRadarChanges a W st r s)) = knownRadars s
    \<and> spokeForwarders (fst (pollForRadarChanges a W st r s)) = spokeForwarders s
    \<and> filter is_call (snd (pollForRadarChanges a W st r s)) = []"
  using assms
  by (simp add: pollForRadarChanges_def pollForRadarChanges_catch_def set_reconnectInterval_def
      clearInterval_def Let_def case_prod_beta split: option.splits)

theorem C7_poll_failure_frame_witness:
  "isConnected state_connected \<and> discoveryInterval state_connected = Some 0
   \<and> snd (pollForRadarChanges app_full ws_ok settings0
            (Inl (JsError ''connect ECONNREFUSED'')) state_connected)
       = [SetPluginError ''Lost connection: connect ECONNREFUSED'', ClearInterval 0,
          SetInterval 1 5000]
   \<and> spokeForwarders (fst (pollForRadarChanges app_full ws_ok settings0
            (Inl (JsError ''connect ECONNREFUSED'')) state_connected))
       = spokeForwarders state_connected
   \<and> knownRadars (fst (pollForRadarChanges app_full ws_ok settings0
            (Inl (JsError ''connect ECONNREFUSED'')) state_connected)) = [''A'']
   \<and> \<not> isConnected (fst (pollForRadarChanges app_full ws_ok settings0
            (Inl (JsError ''connect ECONNREFUSED'')) state_connected))"
  using C7_poll_failure_frame [of "Inl (JsError ''connect ECONNREFUSED'')"
      "JsError ''connect ECONNREFUSED''" app_full ws_ok settings0 state_connected]
  by (simp add: state_connected_eq clearInterval_def reconnectMs_def settings0_def or_default_def
      plugin_init_def)

subsection \<open>The two interval handles\<close>






text \<open>
  After start, stop and a second start, the answer to the second start's request sets
  the discovery interval, and the late failure of the first start's request then sets
  the reconnect interval as well.
\<close>

lemma late_answer_after_restart:
  "discoveryInterval (fst (plugin_run app_full ws_ok
       [PluginStart settings0, PluginStop, PluginStart settings0,
        ConnectSettled settings0 (Inr (JObj [])),
        ConnectSettled settings0 (Inl (JsError ''Request timeout''))] plugin_init)) = Some 0
   \<and> reconnectInterval (fst (plugin_run app_full ws_ok
       [PluginStart settings0, PluginStop, PluginStart settings0,
        ConnectSettled settings0 (Inr (JObj [])),
        ConnectSettled settings0 (Inl (JsError ''Request timeout''))] plugin_init)) = Some 1"
  by (simp add: plugin_start_def plugin_stop_def connectAndDiscover_def connectAndDiscover_catch_def
      updateRadars_def new_Set_def set_discoveryInterval_def set_reconnectInterval_def Let_def
      case_prod_beta app_full_def plugin_init_def)




end
